theory Spec2Isabelle
  imports Complex_Main "HOL-Library.Word"
begin

unbundle bit_operations_syntax

section \<open>Snowflake identifiers: a shallow embedding of src/index.ts\<close>

text \<open>
  Conventions of the embedding.
  \<^item> A JavaScript \<open>bigint\<close> is an \<open>int\<close>: both are unbounded, and \<open>&\<close>, \<open>|\<close>,
    \<open><<\<close>, \<open>>>\<close> on \<open>bigint\<close> are the two's-complement operations \<open>AND\<close>, \<open>OR\<close>,
    \<open>push_bit\<close>, \<open>drop_bit\<close> on \<open>int\<close>.
  \<^item> A JavaScript \<open>number\<close> that a caller supplies (the machine ID and the epoch of the
    options, the epoch given to the parser) or that a result holds is a value of the type
    \<open>number\<close> below: an integer, or a value that is no integer.  \<open>BigInt(n)\<close> of a number
    throws \<open>RangeError\<close> unless the number is an integer; \<open>Number(b)\<close> of a \<open>bigint\<close> is the
    double nearest to it, ties to the even significand, and an infinity beyond the doubles.
  \<^item> The values of \<open>Date.now()\<close>, the sequence number and the validated machine ID are
    integers that the source handles as they are: \<open>BigInt(Date.now())\<close> is exact, and the
    \<open>int32\<close> operators \<open><<\<close>, \<open>|\<close>, \<open>&\<close> on \<open>number\<close> are used below \<open>2 ^ 16\<close> only, or with
    the low mask \<open>4095\<close>, where they agree with the operations on \<open>int\<close>.  These are \<open>int\<close>.
  \<^item> \<open>Date.now()\<close> is a \<open>clock\<close>: the function from the count of readings made so
    far to the value read.  \<open>console.warn\<close> appends to a list of warnings.  Both live
    in a \<open>World\<close> that every effectful function takes and returns.
  \<^item> A \<open>throw\<close> is the left injection of a sum; a loop that may spin for ever
    returns \<open>None\<close>.
\<close>

subsection \<open>Data\<close>

datatype number = Integer int | NonInteger
  \<comment> \<open>\<open>NonInteger\<close>: any value that fails \<open>Number.isInteger\<close> (a fraction, NaN, an infinity)\<close>

record SnowflakeOptions =
  opt_machineId :: "number option"
  opt_epoch :: "number option"
  opt_warnOnDrift :: "bool option"

record SnowflakeInfo =
  info_id :: string
  info_timestamp :: number
  info_machineId :: number
  info_sequence :: number

text \<open>
  The source throws plain \<open>Error\<close> objects, told apart by their messages; the
  constructors carry the names the specification gives them.  \<open>ClockDriftError\<close>
  holds the drift that the message prints.  \<open>SyntaxError\<close> is what \<open>BigInt\<close> throws
  on a string that is no integer literal, \<open>RangeError\<close> what it throws on a number that
  is no integer.
\<close>

datatype error = InvalidMachineId | InvalidEpoch | ClockDriftError int | SyntaxError | RangeError

datatype warning =
    HostnameFailed
  | TimestampOverflowSoon int
  | ClockMovedBackwards int

type_synonym clock = "nat \<Rightarrow> int"

record World =
  reads :: nat
  console :: "warning list"

record Host =
  hostname_digest :: "8 word list option"
  random :: real

text \<open>
  \<open>hostname_digest\<close> is the SHA-256 digest of \<open>os.hostname()\<close>, or \<open>None\<close> when the
  \<open>try\<close> block throws; \<open>random\<close> is the value \<open>Math.random()\<close> returns, a number in
  \<open>[0, 1)\<close>.  The source multiplies it by 1024 and takes \<open>Math.floor\<close>, both exact on a double,
  so the real number stands for the double.
\<close>

subsection \<open>Constants\<close>

definition MACHINE_ID_BITS :: nat where
  "MACHINE_ID_BITS = 10"

definition SEQUENCE_BITS :: nat where
  "SEQUENCE_BITS = 12"

definition MAX_MACHINE_ID :: int where
  "MAX_MACHINE_ID = push_bit MACHINE_ID_BITS 1 - 1"

definition MAX_SEQUENCE :: int where
  "MAX_SEQUENCE = push_bit SEQUENCE_BITS 1 - 1"

definition MACHINE_ID_SHIFT :: nat where
  "MACHINE_ID_SHIFT = SEQUENCE_BITS"

definition TIMESTAMP_SHIFT :: nat where
  "TIMESTAMP_SHIFT = SEQUENCE_BITS + MACHINE_ID_BITS"

definition DEFAULT_EPOCH :: int where
  "DEFAULT_EPOCH = 1752383159010"

subsection \<open>\<open>Number\<close> of a \<open>bigint\<close> and \<open>BigInt\<close> of a number\<close>

text \<open>
  A double holds 53 significant bits.  \<open>excessBits n\<close> is the number of low bits of \<open>n\<close>
  that do not fit; \<open>roundToDouble\<close> drops them, rounding to the nearest value and, at a
  tie, to the even significand.  \<open>Number\<close> is \<open>Number(b)\<close> for a \<open>bigint\<close>: the rounded
  value, or an infinity (a \<open>NonInteger\<close>) when the rounded magnitude reaches \<open>2 ^ 1024\<close>.
  \<open>representable k\<close> says that \<open>k\<close> is a double, as every value of \<open>Date.now()\<close> is.
\<close>

function excessBits :: "nat \<Rightarrow> nat" where
  "excessBits n = (if n < 2 ^ 53 then 0 else Suc (excessBits (n div 2)))"
  by pat_completeness auto
termination
  by (relation "measure (\<lambda>n. n)") auto

declare excessBits.simps [simp del]

definition roundToDouble :: "nat \<Rightarrow> nat" where
  "roundToDouble n =
     (let e = excessBits n;
          q = n div 2 ^ e;
          r = n mod 2 ^ e
      in if 2 ^ e < 2 * r \<or> (2 * r = 2 ^ e \<and> odd q) then (q + 1) * 2 ^ e else q * 2 ^ e)"

definition Number :: "int \<Rightarrow> number" where
  "Number k =
     (let a = roundToDouble (nat \<bar>k\<bar>)
      in if 2 ^ 1024 \<le> a then NonInteger
         else Integer (if k < 0 then - int a else int a))"

definition representable :: "int \<Rightarrow> bool" where
  "representable k = (Number k = Integer k)"

definition BigInt :: "number \<Rightarrow> error + int" where
  "BigInt n = (case n of Integer k \<Rightarrow> Inr k | NonInteger \<Rightarrow> Inl RangeError)"

subsection \<open>Decimal strings and \<open>BigInt\<close> of a string\<close>

text \<open>
  \<open>toString\<close> is \<open>BigInt.prototype.toString()\<close>: decimal digits, no leading zero,
  a minus sign for a negative value.
\<close>

definition digitChar :: "nat \<Rightarrow> char" where
  "digitChar d = ''0123456789'' ! d"

function decimalDigits :: "nat \<Rightarrow> string" where
  "decimalDigits n =
     (if n < 10 then [digitChar n]
      else decimalDigits (n div 10) @ [digitChar (n mod 10)])"
  by pat_completeness auto
termination
  by (relation "measure (\<lambda>n. n)") auto

declare decimalDigits.simps [simp del]

definition toString :: "int \<Rightarrow> string" where
  "toString k = (if k < 0 then CHR ''-'' # decimalDigits (nat (- k)) else decimalDigits (nat k))"

text \<open>
  \<open>StringToBigInt\<close> is \<open>BigInt(s)\<close> for a string \<open>s\<close>, after ECMAScript's grammar
  \<open>StringIntegerLiteral\<close>: white space around the literal is dropped, the empty
  literal is \<open>0\<close>, a decimal literal may carry a sign, a literal with the prefix
  \<open>0x\<close>, \<open>0o\<close> or \<open>0b\<close> may not, and anything else throws \<open>SyntaxError\<close>.  A \<open>char\<close>
  is one code unit below 256, so of the white space of ECMAScript the characters
  TAB, LF, VT, FF, CR, SP and NBSP are covered.
\<close>

definition isStrWhiteSpaceChar :: "char \<Rightarrow> bool" where
  "isStrWhiteSpaceChar c = ((of_char c :: nat) \<in> {9, 10, 11, 12, 13, 32, 160})"

definition trimString :: "string \<Rightarrow> string" where
  "trimString s = rev (dropWhile isStrWhiteSpaceChar (rev (dropWhile isStrWhiteSpaceChar s)))"

definition digitValue :: "char \<Rightarrow> nat option" where
  "digitValue c =
     (let n = (of_char c :: nat) in
      if 48 \<le> n \<and> n \<le> 57 then Some (n - 48)
      else if 97 \<le> n \<and> n \<le> 102 then Some (n - 87)
      else if 65 \<le> n \<and> n \<le> 70 then Some (n - 55)
      else None)"

fun parseDigits :: "nat \<Rightarrow> nat \<Rightarrow> string \<Rightarrow> nat option" where
  "parseDigits base acc [] = Some acc"
| "parseDigits base acc (c # cs) =
     (case digitValue c of
        None \<Rightarrow> None
      | Some d \<Rightarrow> if d < base then parseDigits base (acc * base + d) cs else None)"

definition parseNumeral :: "nat \<Rightarrow> string \<Rightarrow> int option" where
  "parseNumeral base s = (if s = [] then None else map_option int (parseDigits base 0 s))"

definition StringToBigInt :: "string \<Rightarrow> error + int" where
  "StringToBigInt str =
     (let s = trimString str in
      if s = [] then Inr 0
      else
        (case
           (if take 2 s = ''0x'' \<or> take 2 s = ''0X'' then parseNumeral 16 (drop 2 s)
            else if take 2 s = ''0o'' \<or> take 2 s = ''0O'' then parseNumeral 8 (drop 2 s)
            else if take 2 s = ''0b'' \<or> take 2 s = ''0B'' then parseNumeral 2 (drop 2 s)
            else if hd s = CHR ''-'' then map_option uminus (parseNumeral 10 (tl s))
            else if hd s = CHR ''+'' then parseNumeral 10 (tl s)
            else parseNumeral 10 s)
         of None \<Rightarrow> Inl SyntaxError
          | Some k \<Rightarrow> Inr k))"

subsection \<open>Helper functions of the source\<close>

definition byteAt :: "8 word list \<Rightarrow> nat \<Rightarrow> int" where
  "byteAt hash i = (if i < length hash then uint (hash ! i) else 0)"
  \<comment> \<open>\<open>hash[i]\<close>; a read past the end is \<open>undefined\<close>, which \<open><<\<close> and \<open>|\<close> take as 0\<close>

definition generateMachineIdFromHostname :: "Host \<Rightarrow> World \<Rightarrow> int \<times> World" where
  "generateMachineIdFromHostname host w =
     (case hostname_digest host of
        Some hash \<Rightarrow> ((push_bit 8 (byteAt hash 0) OR byteAt hash 1) AND MAX_MACHINE_ID, w)
      | None \<Rightarrow>
          (\<lfloor>random host * of_int (MAX_MACHINE_ID + 1)\<rfloor>,
           w\<lparr>console := console w @ [HostnameFailed]\<rparr>))"

text \<open>
  \<open>validateMachineId\<close> returns nothing in the source; here a machine ID that
  passes comes back as the integer that \<open>Number.isInteger\<close> found it to be.
\<close>

definition validateMachineId :: "number \<Rightarrow> error + int" where
  "validateMachineId machineId =
     (case machineId of
        NonInteger \<Rightarrow> Inl InvalidMachineId
      | Integer m \<Rightarrow> if m < 0 \<or> m > MAX_MACHINE_ID then Inl InvalidMachineId else Inr m)"

text \<open>
  \<open>yearsUntilOverflow < 1\<close> is a comparison of \<open>timeUntilOverflow\<close> with the
  milliseconds of a year, written without the division.
\<close>

definition validateEpoch :: "clock \<Rightarrow> int \<Rightarrow> World \<Rightarrow> (error + unit) \<times> World" where
  "validateEpoch clock epoch w =
     (let now = clock (reads w);
          w1 = w\<lparr>reads := Suc (reads w)\<rparr>
      in if epoch \<ge> now then (Inl InvalidEpoch, w1)
         else
           (let maxTimestamp = push_bit 41 1 - 1;
                timeUntilOverflow = maxTimestamp - (now - epoch)
            in if timeUntilOverflow < 1000 * 60 * 60 * 24 * 365
               then (Inr (), w1\<lparr>console := console w1 @ [TimestampOverflowSoon timeUntilOverflow]\<rparr>)
               else (Inr (), w1)))"

definition handleClockDrift :: "int \<Rightarrow> int \<Rightarrow> bool \<Rightarrow> World \<Rightarrow> (error + unit) \<times> World" where
  "handleClockDrift currentTimestamp lastTimestamp warnOnDrift w =
     (let drift = lastTimestamp - currentTimestamp;
          w1 = (if warnOnDrift then w\<lparr>console := console w @ [ClockMovedBackwards drift]\<rparr> else w)
      in if drift > 5000 then (Inl (ClockDriftError drift), w1) else (Inr (), w1))"

partial_function (option) waitForNextMillisecond :: "clock \<Rightarrow> int \<Rightarrow> World \<Rightarrow> (int \<times> World) option" where
  "waitForNextMillisecond clock lastTimestamp w =
     (if clock (reads w) \<le> lastTimestamp
      then waitForNextMillisecond clock lastTimestamp (w\<lparr>reads := Suc (reads w)\<rparr>)
      else Some (clock (reads w), w\<lparr>reads := Suc (reads w)\<rparr>))"

definition constructSnowflakeId :: "int \<Rightarrow> int \<Rightarrow> int \<Rightarrow> int \<Rightarrow> int" where
  "constructSnowflakeId timestamp epoch machineId sequence =
     push_bit TIMESTAMP_SHIFT (timestamp - epoch)
       OR push_bit MACHINE_ID_SHIFT machineId
       OR sequence"

subsection \<open>Generator state\<close>

record GeneratorState =
  sequence :: int
  lastTimestamp :: int

definition createGeneratorState :: GeneratorState where
  "createGeneratorState = \<lparr>sequence = 0, lastTimestamp = - 1\<rparr>"

definition getSequence :: "GeneratorState \<Rightarrow> int" where
  "getSequence s = sequence s"

definition setSequence :: "int \<Rightarrow> GeneratorState \<Rightarrow> GeneratorState" where
  "setSequence newSequence s = s\<lparr>sequence := newSequence\<rparr>"

definition getLastTimestamp :: "GeneratorState \<Rightarrow> int" where
  "getLastTimestamp s = lastTimestamp s"

definition setLastTimestamp :: "int \<Rightarrow> GeneratorState \<Rightarrow> GeneratorState" where
  "setLastTimestamp timestamp s = s\<lparr>lastTimestamp := timestamp\<rparr>"

definition incrementSequence :: "GeneratorState \<Rightarrow> GeneratorState" where
  "incrementSequence s = s\<lparr>sequence := (sequence s + 1) AND MAX_SEQUENCE\<rparr>"

definition resetSequence :: "GeneratorState \<Rightarrow> GeneratorState" where
  "resetSequence s = s\<lparr>sequence := 0\<rparr>"

subsection \<open>Generating an identifier\<close>

record GenResult =
  res_id :: int
  res_timestamp :: int
  res_sequence :: int

text \<open>
  The two \<open>if\<close> statements of \<open>generateSnowflakeWithState\<close> are the two inner
  \<open>case\<close> scrutinees: each yields the timestamp to go on with, the state and the
  world, or the exception, or \<open>None\<close> when its busy-wait never ends.
\<close>

definition generateSnowflakeWithState ::
  "clock \<Rightarrow> GeneratorState \<Rightarrow> int \<Rightarrow> int \<Rightarrow> bool \<Rightarrow> World
     \<Rightarrow> ((error + GenResult) \<times> GeneratorState \<times> World) option" where
  "generateSnowflakeWithState clock state0 epoch machineId warnOnDrift w0 =
     (let timestamp0 = clock (reads w0);
          w1 = w0\<lparr>reads := Suc (reads w0)\<rparr>
      in
      case
        (if timestamp0 < getLastTimestamp state0
         then
           (case handleClockDrift timestamp0 (getLastTimestamp state0) warnOnDrift w1 of
              (Inl e, w2) \<Rightarrow> Some (Inl e, w2)
            | (Inr u, w2) \<Rightarrow>
                map_option (\<lambda>(t, w3). (Inr t, w3))
                  (waitForNextMillisecond clock (getLastTimestamp state0) w2))
         else Some (Inr timestamp0, w1))
      of
        None \<Rightarrow> None
      | Some (Inl e, w2) \<Rightarrow> Some (Inl e, state0, w2)
      | Some (Inr timestamp1, w2) \<Rightarrow>
          (case
             (if timestamp1 = getLastTimestamp state0
              then
                (let state1 = incrementSequence state0
                 in if getSequence state1 = 0
                    then map_option (\<lambda>(t, w3). (t, state1, w3))
                           (waitForNextMillisecond clock (getLastTimestamp state1) w2)
                    else Some (timestamp1, state1, w2))
              else Some (timestamp1, resetSequence state0, w2))
           of
             None \<Rightarrow> None
           | Some (timestamp2, state2, w3) \<Rightarrow>
               (let state3 = setLastTimestamp timestamp2 state2;
                    ident = constructSnowflakeId timestamp2 epoch machineId (getSequence state3)
                in Some (Inr \<lparr>res_id = ident, res_timestamp = timestamp2,
                              res_sequence = getSequence state3\<rparr>,
                         state3, w3))))"

subsection \<open>The generator object\<close>

record Generator =
  machineId :: int
  epoch :: int
  warnOnDrift :: bool
  state :: GeneratorState

text \<open>
  The source derives the machine ID when none is given (line 139), converts the epoch
  with \<open>BigInt\<close> (line 140), validates a machine ID that was given (lines 144 to 146) and
  validates the epoch (line 147), in this order; the first of these to throw ends the
  call.  \<open>Number(epoch)\<close> at line 147 is an infinity only for an epoch beyond every double:
  then \<open>validateEpoch\<close> reads the clock and throws \<open>InvalidEpoch\<close> on the positive
  infinity, and \<open>BigInt(now - epoch)\<close> throws \<open>RangeError\<close> on the negative one.
\<close>

definition createSnowflakeGenerator ::
  "Host \<Rightarrow> clock \<Rightarrow> SnowflakeOptions \<Rightarrow> World \<Rightarrow> (error + Generator) \<times> World" where
  "createSnowflakeGenerator host clock options w0 =
     (case
        (case opt_machineId options of
           None \<Rightarrow> (case generateMachineIdFromHostname host w0 of (m, w1) \<Rightarrow> (Inr m, w1))
         | Some m \<Rightarrow> (validateMachineId m, w0))
      of (checked, w1) \<Rightarrow>
        (case BigInt (case opt_epoch options of Some e \<Rightarrow> e | None \<Rightarrow> Integer DEFAULT_EPOCH) of
           Inl e \<Rightarrow> (Inl e, w1)
         | Inr epoch0 \<Rightarrow>
             (let warnOnDrift0 = (case opt_warnOnDrift options of Some b \<Rightarrow> b | None \<Rightarrow> True)
              in
              case checked of
                Inl e \<Rightarrow> (Inl e, w1)
              | Inr machineId0 \<Rightarrow>
                  (case
                     (case Number epoch0 of
                        Integer e \<Rightarrow> validateEpoch clock e w1
                      | NonInteger \<Rightarrow>
                          (Inl (if 0 < epoch0 then InvalidEpoch else RangeError),
                           w1\<lparr>reads := Suc (reads w1)\<rparr>))
                   of
                     (Inl e, w2) \<Rightarrow> (Inl e, w2)
                   | (Inr u, w2) \<Rightarrow>
                       (Inr \<lparr>machineId = machineId0, epoch = epoch0, warnOnDrift = warnOnDrift0,
                             state = createGeneratorState\<rparr>,
                        w2)))))"

definition generate :: "clock \<Rightarrow> Generator \<Rightarrow> World \<Rightarrow> ((error + string) \<times> Generator \<times> World) option" where
  "generate clock g w =
     (case generateSnowflakeWithState clock (state g) (epoch g) (machineId g) (warnOnDrift g) w of
        None \<Rightarrow> None
      | Some (Inl e, s, w1) \<Rightarrow> Some (Inl e, g\<lparr>state := s\<rparr>, w1)
      | Some (Inr result, s, w1) \<Rightarrow> Some (Inr (toString (res_id result)), g\<lparr>state := s\<rparr>, w1))"

definition generateWithInfo ::
  "clock \<Rightarrow> Generator \<Rightarrow> World \<Rightarrow> ((error + SnowflakeInfo) \<times> Generator \<times> World) option" where
  "generateWithInfo clock g w =
     (case generateSnowflakeWithState clock (state g) (epoch g) (machineId g) (warnOnDrift g) w of
        None \<Rightarrow> None
      | Some (Inl e, s, w1) \<Rightarrow> Some (Inl e, g\<lparr>state := s\<rparr>, w1)
      | Some (Inr result, s, w1) \<Rightarrow>
          Some (Inr \<lparr>info_id = toString (res_id result),
                     info_timestamp = Number (res_timestamp result),
                     info_machineId = Integer (machineId g),
                     info_sequence = Integer (res_sequence result)\<rparr>,
                g\<lparr>state := s\<rparr>, w1))"

definition getMachineId :: "Generator \<Rightarrow> int" where
  "getMachineId g = machineId g"

definition getEpoch :: "Generator \<Rightarrow> number" where
  "getEpoch g = Number (epoch g)"

subsection \<open>Parsing an identifier\<close>

datatype id_input = IdString string | IdBigInt int

definition parseSnowflakeId :: "id_input \<Rightarrow> number option \<Rightarrow> error + SnowflakeInfo" where
  "parseSnowflakeId ident epoch_opt =
     (let epoch0 = (case epoch_opt of Some e \<Rightarrow> e | None \<Rightarrow> Integer DEFAULT_EPOCH)
      in
      case (case ident of IdString s \<Rightarrow> StringToBigInt s | IdBigInt k \<Rightarrow> Inr k) of
        Inl e \<Rightarrow> Inl e
      | Inr idBigInt \<Rightarrow>
          (case BigInt epoch0 of
             Inl e \<Rightarrow> Inl e
           | Inr epochBigInt \<Rightarrow>
               Inr \<lparr>info_id = (case ident of IdString s \<Rightarrow> s | IdBigInt k \<Rightarrow> toString k),
                    info_timestamp = Number (drop_bit TIMESTAMP_SHIFT idBigInt + epochBigInt),
                    info_machineId = Number (drop_bit MACHINE_ID_SHIFT idBigInt AND MAX_MACHINE_ID),
                    info_sequence = Number (idBigInt AND MAX_SEQUENCE)\<rparr>))"

subsection \<open>Clocks to run the generator on\<close>

definition frozenClock :: "int \<Rightarrow> clock" where
  "frozenClock t n = t"

definition tickingClock :: "int \<Rightarrow> clock" where
  "tickingClock t n = t + int n"

definition scriptedClock :: "int list \<Rightarrow> int \<Rightarrow> clock" where
  "scriptedClock ts t n = (if n < length ts then ts ! n else t)"

definition newWorld :: World where
  "newWorld = \<lparr>reads = 0, console = []\<rparr>"

subsection \<open>Hosts to construct a generator on\<close>

text \<open>
  \<open>localHost\<close> is a host named \<open>localhost\<close>, with the SHA-256 digest of that name;
  \<open>namelessHost\<close> is one on which the digest cannot be computed.
\<close>

definition localHost :: Host where
  "localHost =
     \<lparr>hostname_digest = Some
        [73, 150, 13, 229, 136, 14, 140, 104, 116, 52, 23, 15, 100, 118, 96, 91,
         143, 228, 174, 185, 162, 134, 50, 199, 153, 92, 243, 186, 131, 29, 151, 99],
      random = 1 / 2\<rparr>"

definition namelessHost :: Host where
  "namelessHost = \<lparr>hostname_digest = None, random = 1 / 2\<rparr>"

section \<open>Numbers\<close>

text \<open>
  \<open>Number\<close> is exact up to \<open>2 ^ 53\<close> in magnitude, and rounds beyond: \<open>2 ^ 53 + 1\<close> lies
  half way between two doubles and goes to the even one, \<open>2 ^ 53\<close>.
\<close>

lemma excessBits_small: "n < 2 ^ 53 \<Longrightarrow> excessBits n = 0"
  by (subst excessBits.simps) simp

lemma excessBits_large: "\<not> n < 2 ^ 53 \<Longrightarrow> excessBits n = Suc (excessBits (n div 2))"
  by (subst excessBits.simps) simp

lemmas Number_eval = Number_def roundToDouble_def excessBits_small excessBits_large Let_def

lemma roundToDouble_exact:
  assumes "n \<le> 2 ^ 53"
  shows "roundToDouble n = n"
proof (cases "n < 2 ^ 53")
  case True
  then show ?thesis by (simp add: roundToDouble_def excessBits_small)
next
  case False
  with assms have "n = 2 ^ 53" by simp
  then show ?thesis by (simp add: Number_eval)
qed

lemma Number_exact:
  assumes "\<bar>k\<bar> \<le> 2 ^ 53"
  shows "Number k = Integer k"
proof -
  have n: "nat \<bar>k\<bar> \<le> 2 ^ 53"
    using assms by (simp add: nat_le_iff)
  have "roundToDouble (nat \<bar>k\<bar>) = nat \<bar>k\<bar>"
    using n by (rule roundToDouble_exact)
  moreover have "\<not> (2 :: nat) ^ 1024 \<le> nat \<bar>k\<bar>"
    using n by simp
  ultimately show ?thesis
    by (simp add: Number_def Let_def)
qed

lemma representable_safe: "\<bar>k\<bar> \<le> 2 ^ 53 \<Longrightarrow> representable k"
  by (simp add: representable_def Number_exact)

lemma Number_rounds: "Number 9007199254740993 = Integer 9007199254740992"
  by (simp add: Number_eval)

section \<open>Bit fields of an identifier\<close>

text \<open>
  With a machine ID below \<open>2 ^ 10\<close> and a sequence number below \<open>2 ^ 12\<close> the three
  fields of an identifier do not overlap: each can be read back, and the identifier is
  the sum of the shifted fields.
\<close>

lemmas layout_defs = MACHINE_ID_BITS_def SEQUENCE_BITS_def MAX_MACHINE_ID_def MAX_SEQUENCE_def
  MACHINE_ID_SHIFT_def TIMESTAMP_SHIFT_def

lemma MAX_SEQUENCE_mask: "MAX_SEQUENCE = mask 12"
  by (simp add: layout_defs mask_eq_exp_minus_1)

lemma MAX_MACHINE_ID_mask: "MAX_MACHINE_ID = mask 10"
  by (simp add: layout_defs mask_eq_exp_minus_1)

lemma MAX_values: "MAX_MACHINE_ID = 1023" "MAX_SEQUENCE = 4095" "MACHINE_ID_SHIFT = 12" "TIMESTAMP_SHIFT = 22"
  by (simp_all add: layout_defs)

lemma field_sequence:
  assumes "0 \<le> s" "s < 2 ^ 12"
  shows "constructSnowflakeId t e m s AND MAX_SEQUENCE = s"
proof -
  have "take_bit 12 s = s" using assms by (simp add: take_bit_int_eq_self)
  then show ?thesis
    unfolding MAX_SEQUENCE_mask constructSnowflakeId_def
    by (simp add: flip: take_bit_eq_mask add: take_bit_or take_bit_push_bit MAX_values)
qed

lemma field_machineId:
  assumes "0 \<le> m" "m < 2 ^ 10" "0 \<le> s" "s < 2 ^ 12"
  shows "drop_bit MACHINE_ID_SHIFT (constructSnowflakeId t e m s) AND MAX_MACHINE_ID = m"
proof -
  have "take_bit 10 m = m" using assms by (simp add: take_bit_int_eq_self)
  moreover have "drop_bit 12 s = 0" using assms by (simp add: drop_bit_eq_div)
  ultimately show ?thesis
    unfolding MAX_MACHINE_ID_mask constructSnowflakeId_def
    by (simp add: flip: take_bit_eq_mask add: take_bit_or drop_bit_or take_bit_push_bit drop_bit_push_bit MAX_values)
qed

lemma field_timestamp:
  assumes "0 \<le> m" "m < 2 ^ 10" "0 \<le> s" "s < 2 ^ 12"
  shows "drop_bit TIMESTAMP_SHIFT (constructSnowflakeId t e m s) = t - e"
proof -
  have "drop_bit 10 m = 0" using assms by (simp add: drop_bit_eq_div)
  moreover have "drop_bit 22 s = 0" using assms by (simp add: drop_bit_eq_div)
  moreover have "drop_bit 22 (push_bit 12 m) = drop_bit 10 m"
    by (simp add: drop_bit_push_bit)
  ultimately show ?thesis
    unfolding constructSnowflakeId_def
    by (simp add: drop_bit_or MAX_values drop_bit_push_bit)
qed

lemma construct_arith:
  assumes "0 \<le> m" "m < 2 ^ 10" "0 \<le> s" "s < 2 ^ 12"
  shows "constructSnowflakeId t e m s = (t - e) * 2 ^ 22 + m * 2 ^ 12 + s"
proof -
  have ms: "push_bit 12 m OR s = push_bit 12 m + s"
  proof (rule disjunctive_add [symmetric])
    fix n
    have "take_bit 12 s = s" using assms by (simp add: take_bit_int_eq_self)
    then have "bit s n \<Longrightarrow> n < 12" by (metis bit_take_bit_iff)
    then show "\<not> bit (push_bit 12 m) n \<or> \<not> bit s n"
      by (auto simp: bit_push_bit_iff)
  qed
  have low: "0 \<le> push_bit 12 m + s" "push_bit 12 m + s < 2 ^ 22"
    using assms by (simp_all add: push_bit_eq_mult)
  have hi: "push_bit 22 (t - e) OR (push_bit 12 m + s) = push_bit 22 (t - e) + (push_bit 12 m + s)"
  proof (rule disjunctive_add [symmetric])
    fix n
    have "take_bit 22 (push_bit 12 m + s) = push_bit 12 m + s"
      using low by (simp add: take_bit_int_eq_self)
    then have "bit (push_bit 12 m + s) n \<Longrightarrow> n < 22" by (metis bit_take_bit_iff)
    then show "\<not> bit (push_bit 22 (t - e)) n \<or> \<not> bit (push_bit 12 m + s) n"
      by (auto simp: bit_push_bit_iff)
  qed
  have "constructSnowflakeId t e m s = push_bit 22 (t - e) OR (push_bit 12 m OR s)"
    by (simp add: constructSnowflakeId_def MAX_values or.assoc)
  also have "\<dots> = push_bit 22 (t - e) + (push_bit 12 m + s)"
    by (simp only: ms hi)
  finally show ?thesis
    by (simp add: push_bit_eq_mult)
qed

section \<open>Decimal strings\<close>

text \<open>
  \<open>BigInt\<close> of the decimal string of an integer is that integer: the string holds
  digits only, after a minus sign for a negative value, so nothing is trimmed, no prefix
  of another radix is seen, and the digits are read back to the value.
\<close>

lemma digitChar_cases:
  assumes "d < 10"
  shows "d = 0 \<or> d = 1 \<or> d = 2 \<or> d = 3 \<or> d = 4 \<or> d = 5 \<or> d = 6 \<or> d = 7 \<or> d = 8 \<or> d = (9::nat)"
  using assms by arith

lemma digitValue_digitChar: "d < 10 \<Longrightarrow> digitValue (digitChar d) = Some d"
  using digitChar_cases [of d] by (auto simp: digitValue_def digitChar_def)

lemma digitChar_in: "d < 10 \<Longrightarrow> digitChar d \<in> set ''0123456789''"
  using digitChar_cases [of d] by (auto simp: digitChar_def)

lemma decimalDigits_set: "set (decimalDigits n) \<subseteq> set ''0123456789''"
proof (induction n rule: decimalDigits.induct)
  case (1 n)
  show ?case
  proof (cases "n < 10")
    case True
    then show ?thesis using digitChar_in [of n] by (subst decimalDigits.simps) simp
  next
    case False
    have "digitChar (n mod 10) \<in> set ''0123456789''" by (rule digitChar_in) simp
    with False 1 show ?thesis by (subst decimalDigits.simps) simp
  qed
qed

lemma decimalDigits_nonempty: "decimalDigits n \<noteq> []"
  by (subst decimalDigits.simps) simp

lemma parseDigits_snoc:
  "parseDigits b acc (cs @ [c]) =
     (case parseDigits b acc cs of
        None \<Rightarrow> None
      | Some a \<Rightarrow> (case digitValue c of None \<Rightarrow> None
                   | Some d \<Rightarrow> if d < b then Some (a * b + d) else None))"
  by (induction cs arbitrary: acc) (auto split: option.splits)

lemma parseDigits_decimalDigits: "parseDigits 10 0 (decimalDigits n) = Some n"
proof (induction n rule: decimalDigits.induct)
  case (1 n)
  show ?case
  proof (cases "n < 10")
    case True
    then show ?thesis
      by (subst decimalDigits.simps) (simp add: digitValue_digitChar)
  next
    case False
    then have "parseDigits 10 0 (decimalDigits (n div 10)) = Some (n div 10)"
      using 1 by simp
    with False show ?thesis
      by (subst decimalDigits.simps) (simp add: parseDigits_snoc digitValue_digitChar)
  qed
qed

lemma parseNumeral_decimalDigits: "parseNumeral 10 (decimalDigits n) = Some (int n)"
  by (simp add: parseNumeral_def decimalDigits_nonempty parseDigits_decimalDigits)

lemma trimString_id:
  assumes "s \<noteq> []" "\<not> isStrWhiteSpaceChar (hd s)" "\<not> isStrWhiteSpaceChar (last s)"
  shows "trimString s = s"
proof -
  have "dropWhile isStrWhiteSpaceChar s = s"
    using assms by (cases s) simp_all
  moreover have "dropWhile isStrWhiteSpaceChar (rev s) = rev s"
    using assms by (cases "rev s") (simp_all add: last_rev [symmetric] hd_rev)
  ultimately show ?thesis by (simp add: trimString_def)
qed

lemma digit_not_space: "c \<in> set ''0123456789'' \<Longrightarrow> \<not> isStrWhiteSpaceChar c"
  by (auto simp: isStrWhiteSpaceChar_def)

lemma trimString_toString: "trimString (toString k) = toString k"
proof (rule trimString_id)
  show "toString k \<noteq> []" by (simp add: toString_def decimalDigits_nonempty)
  show "\<not> isStrWhiteSpaceChar (hd (toString k))"
  proof (cases "k < 0")
    case True
    then show ?thesis by (simp add: toString_def isStrWhiteSpaceChar_def)
  next
    case False
    have "hd (decimalDigits (nat k)) \<in> set ''0123456789''"
      using decimalDigits_set decimalDigits_nonempty by (meson hd_in_set subsetD)
    with False show ?thesis by (simp add: toString_def digit_not_space del: set_simps)
  qed
  have "last (decimalDigits n) \<in> set ''0123456789''" for n
    using decimalDigits_set decimalDigits_nonempty by (meson last_in_set subsetD)
  then show "\<not> isStrWhiteSpaceChar (last (toString k))"
    by (simp add: toString_def decimalDigits_nonempty digit_not_space del: set_simps)
qed

lemma take2_digits:
  assumes "set s \<subseteq> set ''0123456789''" "c \<notin> set ''0123456789''"
  shows "take 2 s \<noteq> [d, c]"
proof
  assume "take 2 s = [d, c]"
  then have "c \<in> set (take 2 s)" by simp
  then have "c \<in> set s" by (rule in_set_takeD)
  with assms show False by blast
qed

lemma StringToBigInt_toString: "StringToBigInt (toString k) = Inr k"
proof (cases "k < 0")
  case True
  then have s: "toString k = CHR ''-'' # decimalDigits (nat (- k))"
    by (simp add: toString_def)
  have "take 2 (toString k) \<noteq> [CHR ''0'', c]" for c
    by (simp add: s)
  then show ?thesis
    using True unfolding StringToBigInt_def trimString_toString
    by (simp add: s parseNumeral_decimalDigits)
next
  case False
  then have s: "toString k = decimalDigits (nat k)"
    by (simp add: toString_def)
  have d: "set (toString k) \<subseteq> set ''0123456789''"
    unfolding s by (rule decimalDigits_set)
  have p: "take 2 (toString k) \<noteq> [CHR ''0'', c]" if "c \<notin> set ''0123456789''" for c
    using d that by (rule take2_digits)
  have "hd (toString k) \<in> set ''0123456789''"
    using d decimalDigits_nonempty [of "nat k"] unfolding s by (meson hd_in_set subsetD)
  then have h: "hd (toString k) \<noteq> CHR ''-''" "hd (toString k) \<noteq> CHR ''+''"
    by auto
  have ne: "toString k \<noteq> []" by (simp add: s decimalDigits_nonempty)
  show ?thesis
    using False unfolding StringToBigInt_def trimString_toString
    by (simp add: p h ne) (simp add: s parseNumeral_decimalDigits)
qed

text \<open>Rules to evaluate the two functions on literals.\<close>

lemma decimalDigits_small: "n < 10 \<Longrightarrow> decimalDigits n = [digitChar n]"
  by (subst decimalDigits.simps) simp

lemma decimalDigits_large:
  "\<not> n < 10 \<Longrightarrow> decimalDigits n = decimalDigits (n div 10) @ [digitChar (n mod 10)]"
  by (subst decimalDigits.simps) simp

lemmas toString_eval = toString_def decimalDigits_small decimalDigits_large digitChar_def

lemmas StringToBigInt_eval = StringToBigInt_def trimString_def isStrWhiteSpaceChar_def
  parseNumeral_def digitValue_def

section \<open>The busy-wait and the branches of generation\<close>

text \<open>
  \<open>waitForNextMillisecond\<close> returns the first clock value beyond \<open>lastTimestamp\<close>, at
  the first reading that shows one, and spins for ever when no reading does.  A call of
  \<open>generateSnowflakeWithState\<close> takes one of five ways, told apart by its first reading
  of the clock: a large backward drift, a small one, the millisecond of the previous
  call with sequence numbers left, the same with none left, and a later millisecond.
\<close>

lemmas state_defs = getSequence_def getLastTimestamp_def setLastTimestamp_def
  incrementSequence_def resetSequence_def

lemma wait_now:
  "lastTs < clock (reads w) \<Longrightarrow>
   waitForNextMillisecond clock lastTs w = Some (clock (reads w), w\<lparr>reads := Suc (reads w)\<rparr>)"
  by (subst waitForNextMillisecond.simps) simp

lemma wait_later:
  "clock (reads w) \<le> lastTs \<Longrightarrow>
   waitForNextMillisecond clock lastTs w =
     waitForNextMillisecond clock lastTs (w\<lparr>reads := Suc (reads w)\<rparr>)"
  by (subst waitForNextMillisecond.simps) simp

lemma wait_skip:
  "(\<And>j. reads w \<le> j \<Longrightarrow> j < reads w + d \<Longrightarrow> clock j \<le> lastTs) \<Longrightarrow>
   waitForNextMillisecond clock lastTs w =
     waitForNextMillisecond clock lastTs (w\<lparr>reads := reads w + d\<rparr>)"
proof (induction d arbitrary: w)
  case 0
  then show ?case by simp
next
  case (Suc d)
  have "clock (reads w) \<le> lastTs" using Suc.prems [of "reads w"] by simp
  then have "waitForNextMillisecond clock lastTs w =
     waitForNextMillisecond clock lastTs (w\<lparr>reads := Suc (reads w)\<rparr>)"
    by (rule wait_later)
  also have "\<dots> = waitForNextMillisecond clock lastTs
      ((w\<lparr>reads := Suc (reads w)\<rparr>)\<lparr>reads := reads (w\<lparr>reads := Suc (reads w)\<rparr>) + d\<rparr>)"
    by (rule Suc.IH) (use Suc.prems in simp)
  finally show ?case by simp
qed

lemma wait_Some_aux:
  assumes "waitForNextMillisecond clock lastTs w = Some y"
  shows "lastTs < fst y \<and> console (snd y) = console w \<and> reads w < reads (snd y)
           \<and> fst y = clock (reads (snd y) - 1)
           \<and> (\<forall>j. reads w \<le> j \<and> j < reads (snd y) - 1 \<longrightarrow> clock j \<le> lastTs)"
  using assms
proof (induction rule: waitForNextMillisecond.raw_induct [rotated 1, consumes 1])
  case (1 wait clock lastTs w y)
  show ?case
  proof (cases "clock (reads w) \<le> lastTs")
    case True
    with 1 have "wait clock lastTs (w\<lparr>reads := Suc (reads w)\<rparr>) = Some y"
      by simp
    from 1(1) [OF this]
    have ih: "lastTs < fst y" "console (snd y) = console w" "Suc (reads w) < reads (snd y)"
        "fst y = clock (reads (snd y) - 1)"
      and rest: "\<And>j. Suc (reads w) \<le> j \<Longrightarrow> j < reads (snd y) - 1 \<Longrightarrow> clock j \<le> lastTs"
      by simp_all
    have "clock j \<le> lastTs" if "reads w \<le> j" "j < reads (snd y) - 1" for j
      using that True rest [of j] by (cases "j = reads w") auto
    with ih show ?thesis by auto
  next
    case False
    with 1 show ?thesis by auto
  qed
qed

lemma wait_Some:
  assumes "waitForNextMillisecond clock lastTs w = Some (t, w')"
  shows "lastTs < t" and "console w' = console w" and "reads w < reads w'"
    and "t = clock (reads w' - 1)"
    and "\<And>j. reads w \<le> j \<Longrightarrow> j < reads w' - 1 \<Longrightarrow> clock j \<le> lastTs"
  using wait_Some_aux [OF assms] by simp_all

lemma wait_None:
  assumes "\<And>j. reads w \<le> j \<Longrightarrow> clock j \<le> lastTs"
  shows "waitForNextMillisecond clock lastTs w = None"
proof (cases "waitForNextMillisecond clock lastTs w")
  case None
  then show ?thesis .
next
  case (Some y)
  obtain t w' where y: "y = (t, w')" by (cases y)
  from wait_Some(1,3,4) [OF Some [unfolded y]]
  have "lastTs < clock (reads w' - 1)" "reads w \<le> reads w' - 1" by auto
  with assms [of "reads w' - 1"] show ?thesis by simp
qed

lemma wait_Least:
  assumes "reads w \<le> k" "lastTs < clock k"
  shows "waitForNextMillisecond clock lastTs w =
     Some (clock (LEAST j. reads w \<le> j \<and> lastTs < clock j),
           w\<lparr>reads := Suc (LEAST j. reads w \<le> j \<and> lastTs < clock j)\<rparr>)"
proof -
  define k0 where "k0 = (LEAST j. reads w \<le> j \<and> lastTs < clock j)"
  have k0: "reads w \<le> k0 \<and> lastTs < clock k0"
    unfolding k0_def by (rule LeastI [of _ k]) (use assms in simp)
  have least: "clock j \<le> lastTs" if "reads w \<le> j" "j < k0" for j
    using not_less_Least [of j "\<lambda>j. reads w \<le> j \<and> lastTs < clock j"] that
    unfolding k0_def by auto
  obtain d where d: "k0 = reads w + d" using k0 by (auto simp: le_iff_add)
  have "waitForNextMillisecond clock lastTs w =
          waitForNextMillisecond clock lastTs (w\<lparr>reads := reads w + d\<rparr>)"
    by (rule wait_skip) (use least d in simp)
  also have "\<dots> = Some (clock k0, w\<lparr>reads := Suc k0\<rparr>)"
    using k0 by (subst wait_now) (simp_all add: d)
  finally show ?thesis unfolding k0_def .
qed

lemma wait_returns:
  assumes "reads w \<le> k" "lastTs < clock k"
  shows "\<exists>t w'. waitForNextMillisecond clock lastTs w = Some (t, w')"
  using wait_Least [where w = w and k = k and clock = clock and lastTs = lastTs] assms by blast

lemma wait_console:
  "map_option (\<lambda>(t, w'). (t, reads w')) (waitForNextMillisecond clock lastTs (w\<lparr>console := c\<rparr>)) =
   map_option (\<lambda>(t, w'). (t, reads w')) (waitForNextMillisecond clock lastTs w)"
proof (cases "\<exists>k. reads w \<le> k \<and> lastTs < clock k")
  case True
  then obtain k where k: "reads w \<le> k" "lastTs < clock k" by blast
  then show ?thesis
    using wait_Least [where w = "w\<lparr>console := c\<rparr>" and k = k and clock = clock and lastTs = lastTs]
      wait_Least [where w = w and k = k and clock = clock and lastTs = lastTs]
    by simp
next
  case False
  then have "waitForNextMillisecond clock lastTs w = None"
    "waitForNextMillisecond clock lastTs (w\<lparr>console := c\<rparr>) = None"
    by (auto intro!: wait_None simp: not_less)
  then show ?thesis by simp
qed

lemma generate_drift_error:
  assumes "clock (reads w) < lastTimestamp st" "5000 < lastTimestamp st - clock (reads w)"
  shows "generateSnowflakeWithState clock st e m warn w =
     Some (Inl (ClockDriftError (lastTimestamp st - clock (reads w))), st,
           (if warn
            then w\<lparr>reads := Suc (reads w),
                   console := console w @ [ClockMovedBackwards (lastTimestamp st - clock (reads w))]\<rparr>
            else w\<lparr>reads := Suc (reads w)\<rparr>))"
  using assms by (simp add: generateSnowflakeWithState_def handleClockDrift_def state_defs Let_def)

lemma generate_drift_wait:
  assumes "clock (reads w) < lastTimestamp st" "lastTimestamp st - clock (reads w) \<le> 5000"
  shows "generateSnowflakeWithState clock st e m warn w =
     (case waitForNextMillisecond clock (lastTimestamp st)
             (if warn
              then w\<lparr>reads := Suc (reads w),
                     console := console w @ [ClockMovedBackwards (lastTimestamp st - clock (reads w))]\<rparr>
              else w\<lparr>reads := Suc (reads w)\<rparr>) of
        None \<Rightarrow> None
      | Some (t, w') \<Rightarrow>
          Some (Inr \<lparr>res_id = constructSnowflakeId t e m 0, res_timestamp = t, res_sequence = 0\<rparr>,
                st\<lparr>sequence := 0, lastTimestamp := t\<rparr>, w'))"
proof -
  let ?w = "if warn
              then w\<lparr>reads := Suc (reads w),
                     console := console w @ [ClockMovedBackwards (lastTimestamp st - clock (reads w))]\<rparr>
              else w\<lparr>reads := Suc (reads w)\<rparr>"
  show ?thesis
  proof (cases "waitForNextMillisecond clock (lastTimestamp st) ?w")
    case None
    with assms show ?thesis
      by (cases warn) (simp_all add: generateSnowflakeWithState_def handleClockDrift_def state_defs Let_def)
  next
    case (Some y)
    obtain t w' where y: "y = (t, w')" by (cases y)
    have "lastTimestamp st < t" using wait_Some(1) [OF Some [unfolded y]] .
    with assms Some y show ?thesis
      by (cases warn) (simp_all add: generateSnowflakeWithState_def handleClockDrift_def state_defs Let_def)
  qed
qed

lemma generate_same_ms:
  assumes "clock (reads w) = lastTimestamp st" "(sequence st + 1) AND MAX_SEQUENCE \<noteq> 0"
  shows "generateSnowflakeWithState clock st e m warn w =
     Some (Inr \<lparr>res_id = constructSnowflakeId (lastTimestamp st) e m ((sequence st + 1) AND MAX_SEQUENCE),
                 res_timestamp = lastTimestamp st,
                 res_sequence = (sequence st + 1) AND MAX_SEQUENCE\<rparr>,
           st\<lparr>sequence := (sequence st + 1) AND MAX_SEQUENCE\<rparr>,
           w\<lparr>reads := Suc (reads w)\<rparr>)"
  using assms by (simp add: generateSnowflakeWithState_def state_defs Let_def)

lemma generate_exhausted:
  assumes "clock (reads w) = lastTimestamp st" "(sequence st + 1) AND MAX_SEQUENCE = 0"
  shows "generateSnowflakeWithState clock st e m warn w =
     (case waitForNextMillisecond clock (lastTimestamp st) (w\<lparr>reads := Suc (reads w)\<rparr>) of
        None \<Rightarrow> None
      | Some (t, w') \<Rightarrow>
          Some (Inr \<lparr>res_id = constructSnowflakeId t e m 0, res_timestamp = t, res_sequence = 0\<rparr>,
                st\<lparr>sequence := 0, lastTimestamp := t\<rparr>, w'))"
  using assms
  by (simp add: generateSnowflakeWithState_def state_defs Let_def split: option.splits)

lemma generate_advance:
  assumes "lastTimestamp st < clock (reads w)"
  shows "generateSnowflakeWithState clock st e m warn w =
     Some (Inr \<lparr>res_id = constructSnowflakeId (clock (reads w)) e m 0,
                 res_timestamp = clock (reads w), res_sequence = 0\<rparr>,
           st\<lparr>sequence := 0, lastTimestamp := clock (reads w)\<rparr>,
           w\<lparr>reads := Suc (reads w)\<rparr>)"
  using assms by (simp add: generateSnowflakeWithState_def state_defs Let_def)

lemma generate_Inr:
  assumes "generateSnowflakeWithState clock st e m warn w = Some (Inr r, st', w')"
  shows "res_id r = constructSnowflakeId (res_timestamp r) e m (res_sequence r)"
    and "st' = st\<lparr>sequence := res_sequence r, lastTimestamp := res_timestamp r\<rparr>"
    and "lastTimestamp st < res_timestamp r \<and> res_sequence r = 0
         \<or> clock (reads w) = lastTimestamp st \<and> res_timestamp r = lastTimestamp st
             \<and> res_sequence r = (sequence st + 1) AND MAX_SEQUENCE \<and> res_sequence r \<noteq> 0"
proof -
  consider (err) "clock (reads w) < lastTimestamp st" "5000 < lastTimestamp st - clock (reads w)"
    | (drift) "clock (reads w) < lastTimestamp st" "lastTimestamp st - clock (reads w) \<le> 5000"
    | (same) "clock (reads w) = lastTimestamp st" "(sequence st + 1) AND MAX_SEQUENCE \<noteq> 0"
    | (full) "clock (reads w) = lastTimestamp st" "(sequence st + 1) AND MAX_SEQUENCE = 0"
    | (adv) "lastTimestamp st < clock (reads w)"
    by linarith
  then have "res_id r = constructSnowflakeId (res_timestamp r) e m (res_sequence r)
     \<and> st' = st\<lparr>sequence := res_sequence r, lastTimestamp := res_timestamp r\<rparr>
     \<and> (lastTimestamp st < res_timestamp r \<and> res_sequence r = 0
         \<or> clock (reads w) = lastTimestamp st \<and> res_timestamp r = lastTimestamp st
             \<and> res_sequence r = (sequence st + 1) AND MAX_SEQUENCE \<and> res_sequence r \<noteq> 0)"
  proof cases
    case err
    with generate_drift_error [where clock = clock and w = w and st = st and e = e and m = m and warn = warn] assms show ?thesis by simp
  next
    case drift
    with generate_drift_wait [where clock = clock and w = w and st = st and e = e and m = m and warn = warn] assms show ?thesis
      by (auto split: option.splits dest: wait_Some(1))
  next
    case same
    with generate_same_ms [where clock = clock and w = w and st = st and e = e and m = m and warn = warn] assms show ?thesis by auto
  next
    case full
    with generate_exhausted [where clock = clock and w = w and st = st and e = e and m = m and warn = warn] assms show ?thesis
      by (auto split: option.splits dest: wait_Some(1))
  next
    case adv
    with generate_advance [where clock = clock and w = w and st = st and e = e and m = m and warn = warn] assms show ?thesis by auto
  qed
  then show "res_id r = constructSnowflakeId (res_timestamp r) e m (res_sequence r)"
    and "st' = st\<lparr>sequence := res_sequence r, lastTimestamp := res_timestamp r\<rparr>"
    and "lastTimestamp st < res_timestamp r \<and> res_sequence r = 0
         \<or> clock (reads w) = lastTimestamp st \<and> res_timestamp r = lastTimestamp st
             \<and> res_sequence r = (sequence st + 1) AND MAX_SEQUENCE \<and> res_sequence r \<noteq> 0"
    by simp_all
qed

section \<open>Parsing\<close>

lemma Number_sequence_field: "Number (k AND 4095) = Integer (k AND 4095)"
proof (rule Number_exact)
  have "0 \<le> k AND 4095" "k AND 4095 \<le> 4095" by (simp_all add: AND_upper2)
  then show "\<bar>k AND 4095\<bar> \<le> 2 ^ 53" by simp
qed

lemma Number_machineId_field: "Number (k AND 1023) = Integer (k AND 1023)"
proof (rule Number_exact)
  have "0 \<le> k AND 1023" "k AND 1023 \<le> 1023" by (simp_all add: AND_upper2)
  then show "\<bar>k AND 1023\<bar> \<le> 2 ^ 53" by simp
qed

lemma parseSnowflakeId_IdBigInt:
  "parseSnowflakeId (IdBigInt k) (Some (Integer e)) =
     Inr \<lparr>info_id = toString k, info_timestamp = Number (drop_bit 22 k + e),
          info_machineId = Integer (drop_bit 12 k AND 1023), info_sequence = Integer (k AND 4095)\<rparr>"
  by (simp add: parseSnowflakeId_def BigInt_def MAX_values Number_sequence_field
      Number_machineId_field)

lemma parseSnowflakeId_IdString:
  "parseSnowflakeId (IdString (toString k)) (Some (Integer e)) =
     Inr \<lparr>info_id = toString k, info_timestamp = Number (drop_bit 22 k + e),
          info_machineId = Integer (drop_bit 12 k AND 1023), info_sequence = Integer (k AND 4095)\<rparr>"
  by (simp add: parseSnowflakeId_def BigInt_def MAX_values StringToBigInt_toString
      Number_sequence_field Number_machineId_field)

lemma parseSnowflakeId_NonInteger:
  "parseSnowflakeId (IdBigInt k) (Some NonInteger) = Inl RangeError"
  by (simp add: parseSnowflakeId_def BigInt_def)

lemma fields_of_construct:
  assumes "0 \<le> m" "m \<le> 1023" "0 \<le> s" "s \<le> 4095"
  shows "drop_bit 22 (constructSnowflakeId t e m s) + e = t"
    and "drop_bit 12 (constructSnowflakeId t e m s) AND 1023 = m"
    and "constructSnowflakeId t e m s AND 4095 = s"
  using field_timestamp [of m s t e] field_machineId [of m s t e] field_sequence [of s t e m] assms
  by (simp_all add: MAX_values)

section \<open>Facts about generation shared by the claims\<close>

lemma sequence_mask_range: "0 \<le> x AND MAX_SEQUENCE" "x AND MAX_SEQUENCE \<le> 4095"
  by (simp_all add: MAX_values AND_upper2)

lemma sequence_mask_mod: "x AND MAX_SEQUENCE = x mod 4096"
  by (simp add: MAX_SEQUENCE_mask flip: take_bit_eq_mask) (simp add: take_bit_eq_mod)

lemma generate_sequence_range:
  assumes "generateSnowflakeWithState clock st e m warn w = Some (Inr r, st', w')"
  shows "0 \<le> res_sequence r" "res_sequence r \<le> 4095"
  using generate_Inr(3) [OF assms] sequence_mask_range [of "sequence st + 1"] by auto

lemma construct_less:
  assumes "0 \<le> m" "m \<le> 1023" "0 \<le> s1" "s1 \<le> 4095" "0 \<le> s2" "s2 \<le> 4095"
    and "t1 < t2 \<or> t1 = t2 \<and> s1 < s2"
  shows "constructSnowflakeId t1 e m s1 < constructSnowflakeId t2 e m s2"
proof -
  have a: "constructSnowflakeId t1 e m s1 = (t1 - e) * 2 ^ 22 + m * 2 ^ 12 + s1"
    "constructSnowflakeId t2 e m s2 = (t2 - e) * 2 ^ 22 + m * 2 ^ 12 + s2"
    using assms by (simp_all add: construct_arith)
  from assms(7) show ?thesis
  proof
    assume "t1 < t2"
    then have "(t1 - e) + 1 \<le> t2 - e" by simp
    then have "((t1 - e) + 1) * 2 ^ 22 \<le> (t2 - e) * 2 ^ 22"
      by (rule mult_right_mono) simp
    with assms show ?thesis unfolding a by (simp add: algebra_simps)
  next
    assume "t1 = t2 \<and> s1 < s2"
    then show ?thesis unfolding a by simp
  qed
qed

lemma generate_Inl:
  assumes "generateSnowflakeWithState clock st e m warn w = Some (Inl err, st', w')"
  shows "clock (reads w) < lastTimestamp st" and "5000 < lastTimestamp st - clock (reads w)"
    and "err = ClockDriftError (lastTimestamp st - clock (reads w))"
    and "st' = st" and "reads w' = Suc (reads w)"
proof -
  consider (err) "clock (reads w) < lastTimestamp st" "5000 < lastTimestamp st - clock (reads w)"
    | (drift) "clock (reads w) < lastTimestamp st" "lastTimestamp st - clock (reads w) \<le> 5000"
    | (same) "clock (reads w) = lastTimestamp st" "(sequence st + 1) AND MAX_SEQUENCE \<noteq> 0"
    | (full) "clock (reads w) = lastTimestamp st" "(sequence st + 1) AND MAX_SEQUENCE = 0"
    | (adv) "lastTimestamp st < clock (reads w)"
    by linarith
  then have "clock (reads w) < lastTimestamp st \<and> 5000 < lastTimestamp st - clock (reads w)
      \<and> err = ClockDriftError (lastTimestamp st - clock (reads w)) \<and> st' = st
      \<and> reads w' = Suc (reads w)"
  proof cases
    case err
    with generate_drift_error [where clock = clock and w = w and st = st and e = e and m = m and warn = warn]
      assms show ?thesis by (auto split: if_splits)
  next
    case drift
    with generate_drift_wait [where clock = clock and w = w and st = st and e = e and m = m and warn = warn]
      assms show ?thesis by (auto split: option.splits)
  next
    case same
    with generate_same_ms [where clock = clock and w = w and st = st and e = e and m = m and warn = warn]
      assms show ?thesis by auto
  next
    case full
    with generate_exhausted [where clock = clock and w = w and st = st and e = e and m = m and warn = warn]
      assms show ?thesis by (auto split: option.splits)
  next
    case adv
    with generate_advance [where clock = clock and w = w and st = st and e = e and m = m and warn = warn]
      assms show ?thesis by auto
  qed
  then show "clock (reads w) < lastTimestamp st" and "5000 < lastTimestamp st - clock (reads w)"
    and "err = ClockDriftError (lastTimestamp st - clock (reads w))"
    and "st' = st" and "reads w' = Suc (reads w)"
    by simp_all
qed

lemma generate_small_drift:
  assumes "clock (reads w) < lastTimestamp st" "lastTimestamp st - clock (reads w) \<le> 5000"
    and "reads w < k" "lastTimestamp st < clock k"
  shows "\<exists>r st' w'. generateSnowflakeWithState clock st e m warn w = Some (Inr r, st', w')
           \<and> lastTimestamp st < res_timestamp r"
proof -
  let ?w = "if warn
              then w\<lparr>reads := Suc (reads w),
                     console := console w @ [ClockMovedBackwards (lastTimestamp st - clock (reads w))]\<rparr>
              else w\<lparr>reads := Suc (reads w)\<rparr>"
  have "reads ?w \<le> k" using assms(3) by simp
  with wait_returns [where w = ?w and k = k and clock = clock and lastTs = "lastTimestamp st"]
    assms(4)
  obtain t w' where wt: "waitForNextMillisecond clock (lastTimestamp st) ?w = Some (t, w')"
    by blast
  then have "lastTimestamp st < t" by (rule wait_Some(1))
  then show ?thesis
    using generate_drift_wait [where clock = clock and w = w and st = st and e = e and m = m and warn = warn]
      assms(1,2) wt by simp
qed

lemma increment_changes: "(x + 1) AND MAX_SEQUENCE \<noteq> x"
proof
  assume a: "(x + 1) AND MAX_SEQUENCE = x"
  then have m: "(x + 1) mod 4096 = x" by (simp add: sequence_mask_mod)
  have "0 \<le> (x + 1) mod 4096" "(x + 1) mod 4096 < 4096" by simp_all
  then have "0 \<le> x" "x < 4096" unfolding m by simp_all
  then show False using m by (cases "x = 4095") simp_all
qed

lemma generate_console:
  assumes "generateSnowflakeWithState clock st e m warn w = Some (x, st', w')"
  shows "console w' =
     (if warn \<and> clock (reads w) < lastTimestamp st
      then console w @ [ClockMovedBackwards (lastTimestamp st - clock (reads w))]
      else console w)"
proof -
  consider (err) "clock (reads w) < lastTimestamp st" "5000 < lastTimestamp st - clock (reads w)"
    | (drift) "clock (reads w) < lastTimestamp st" "lastTimestamp st - clock (reads w) \<le> 5000"
    | (same) "clock (reads w) = lastTimestamp st" "(sequence st + 1) AND MAX_SEQUENCE \<noteq> 0"
    | (full) "clock (reads w) = lastTimestamp st" "(sequence st + 1) AND MAX_SEQUENCE = 0"
    | (adv) "lastTimestamp st < clock (reads w)"
    by linarith
  then show ?thesis
  proof cases
    case err
    with generate_drift_error [where clock = clock and w = w and st = st and e = e and m = m and warn = warn]
      assms show ?thesis by (auto split: if_splits)
  next
    case drift
    with generate_drift_wait [where clock = clock and w = w and st = st and e = e and m = m and warn = warn]
      assms show ?thesis by (auto split: option.splits if_splits dest: wait_Some(2))
  next
    case same
    with generate_same_ms [where clock = clock and w = w and st = st and e = e and m = m and warn = warn]
      assms show ?thesis by auto
  next
    case full
    with generate_exhausted [where clock = clock and w = w and st = st and e = e and m = m and warn = warn]
      assms show ?thesis by (auto split: option.splits dest: wait_Some(2))
  next
    case adv
    with generate_advance [where clock = clock and w = w and st = st and e = e and m = m and warn = warn]
      assms show ?thesis by auto
  qed
qed

lemma warnOnDrift_same_outcome:
  "map_option (\<lambda>(x, st', w'). (x, st', reads w'))
       (generateSnowflakeWithState clock st ep mid True w) =
   map_option (\<lambda>(x, st', w'). (x, st', reads w'))
       (generateSnowflakeWithState clock st ep mid False w)"
proof -
  consider (err) "clock (reads w) < lastTimestamp st" "5000 < lastTimestamp st - clock (reads w)"
    | (drift) "clock (reads w) < lastTimestamp st" "lastTimestamp st - clock (reads w) \<le> 5000"
    | (same) "clock (reads w) = lastTimestamp st" "(sequence st + 1) AND MAX_SEQUENCE \<noteq> 0"
    | (full) "clock (reads w) = lastTimestamp st" "(sequence st + 1) AND MAX_SEQUENCE = 0"
    | (adv) "lastTimestamp st < clock (reads w)"
    by linarith
  then show ?thesis
  proof cases
    case err
    then show ?thesis by (simp add: generate_drift_error)
  next
    case drift
    let ?d = "lastTimestamp st - clock (reads w)"
    let ?w = "w\<lparr>reads := Suc (reads w)\<rparr>"
    have "map_option (\<lambda>(t, w'). (t, reads w'))
            (waitForNextMillisecond clock (lastTimestamp st) (?w\<lparr>console := console w @ [ClockMovedBackwards ?d]\<rparr>)) =
          map_option (\<lambda>(t, w'). (t, reads w')) (waitForNextMillisecond clock (lastTimestamp st) ?w)"
      by (rule wait_console)
    then consider
        (spin) "waitForNextMillisecond clock (lastTimestamp st)
                  (?w\<lparr>console := console w @ [ClockMovedBackwards ?d]\<rparr>) = None"
          "waitForNextMillisecond clock (lastTimestamp st) ?w = None"
      | (later) t wa wb where
          "waitForNextMillisecond clock (lastTimestamp st)
             (?w\<lparr>console := console w @ [ClockMovedBackwards ?d]\<rparr>) = Some (t, wa)"
          "waitForNextMillisecond clock (lastTimestamp st) ?w = Some (t, wb)"
          "reads wa = reads wb"
      by (cases "waitForNextMillisecond clock (lastTimestamp st)
                   (?w\<lparr>console := console w @ [ClockMovedBackwards ?d]\<rparr>)";
          cases "waitForNextMillisecond clock (lastTimestamp st) ?w") auto
    then show ?thesis
    proof cases
      case spin
      with drift show ?thesis by (simp add: generate_drift_wait)
    next
      case later
      with drift show ?thesis by (simp add: generate_drift_wait)
    qed
  next
    case same
    then show ?thesis by (simp add: generate_same_ms)
  next
    case full
    then show ?thesis by (simp add: generate_exhausted)
  next
    case adv
    then show ?thesis by (simp add: generate_advance)
  qed
qed

lemma hash_machineId_range:
  "0 \<le> (push_bit 8 (byteAt hash 0) OR byteAt hash 1) AND MAX_MACHINE_ID"
  "(push_bit 8 (byteAt hash 0) OR byteAt hash 1) AND MAX_MACHINE_ID \<le> 1023"
  by (simp_all add: MAX_values AND_upper2)

lemma random_machineId_range:
  assumes "0 \<le> r" "r < 1"
  shows "0 \<le> \<lfloor>r * of_int (MAX_MACHINE_ID + 1)\<rfloor>" "\<lfloor>r * of_int (MAX_MACHINE_ID + 1)\<rfloor> \<le> 1023"
  using assms by (simp_all add: MAX_values floor_le_iff)

lemma generateMachineIdFromHostname_range:
  assumes "hostname_digest host \<noteq> None \<or> 0 \<le> random host \<and> random host < 1"
  shows "0 \<le> fst (generateMachineIdFromHostname host w)"
    and "fst (generateMachineIdFromHostname host w) \<le> 1023"
  using assms hash_machineId_range random_machineId_range [of "random host"]
  by (auto simp: generateMachineIdFromHostname_def split: option.splits)

lemma generate_exhausted_returns:
  assumes "clock (reads w) = lastTimestamp st" "(sequence st + 1) AND MAX_SEQUENCE = 0"
    and "reads w < k" "lastTimestamp st < clock k"
  shows "\<exists>r st' w'. generateSnowflakeWithState clock st e m warn w = Some (Inr r, st', w')
           \<and> sequence st' = 0 \<and> lastTimestamp st < res_timestamp r"
proof -
  have "reads (w\<lparr>reads := Suc (reads w)\<rparr>) \<le> k" using assms(3) by simp
  with wait_returns [where w = "w\<lparr>reads := Suc (reads w)\<rparr>" and k = k and clock = clock
      and lastTs = "lastTimestamp st"] assms(4)
  obtain t w' where wt:
    "waitForNextMillisecond clock (lastTimestamp st) (w\<lparr>reads := Suc (reads w)\<rparr>) = Some (t, w')"
    by blast
  then have "lastTimestamp st < t" by (rule wait_Some(1))
  then show ?thesis
    using generate_exhausted [where clock = clock and w = w and st = st and e = e and m = m
        and warn = warn] assms(1,2) wt
    by simp
qed

lemma generate_returns:
  assumes "reads w < k" "lastTimestamp st < clock k"
  shows "\<exists>x st' w'. generateSnowflakeWithState clock st e m warn w = Some (x, st', w')"
proof -
  consider (err) "clock (reads w) < lastTimestamp st" "5000 < lastTimestamp st - clock (reads w)"
    | (drift) "clock (reads w) < lastTimestamp st" "lastTimestamp st - clock (reads w) \<le> 5000"
    | (same) "clock (reads w) = lastTimestamp st" "(sequence st + 1) AND MAX_SEQUENCE \<noteq> 0"
    | (full) "clock (reads w) = lastTimestamp st" "(sequence st + 1) AND MAX_SEQUENCE = 0"
    | (adv) "lastTimestamp st < clock (reads w)"
    by linarith
  then show ?thesis
  proof cases
    case err
    then show ?thesis by (simp add: generate_drift_error)
  next
    case drift
    with generate_small_drift [where clock = clock and w = w and st = st and e = e and m = m
        and warn = warn and k = k] assms
    show ?thesis by blast
  next
    case same
    then show ?thesis by (simp add: generate_same_ms)
  next
    case full
    with generate_exhausted_returns [where clock = clock and w = w and st = st and e = e and m = m
        and warn = warn and k = k] assms
    show ?thesis by blast
  next
    case adv
    then show ?thesis by (simp add: generate_advance)
  qed
qed

lemma wait_first:
  assumes "reads v \<le> k" "lastTs < clock k"
  shows "\<exists>t w'. waitForNextMillisecond clock lastTs v = Some (t, w')
           \<and> lastTs < t \<and> t = clock (reads w' - 1) \<and> reads v < reads w'
           \<and> (\<forall>j. reads v \<le> j \<and> j < reads w' - 1 \<longrightarrow> clock j \<le> lastTs)"
proof -
  from wait_returns [where w = v and k = k and clock = clock and lastTs = lastTs] assms
  obtain t w' where wt: "waitForNextMillisecond clock lastTs v = Some (t, w')"
    by blast
  from wait_Some [OF wt] wt show ?thesis by blast
qed

lemma generate_small_drift_first:
  assumes "clock (reads w) < lastTimestamp st" "lastTimestamp st - clock (reads w) \<le> 5000"
    and "reads w < k" "lastTimestamp st < clock k"
  shows "\<exists>r st' w'. generateSnowflakeWithState clock st e m warn w = Some (Inr r, st', w')
           \<and> lastTimestamp st < res_timestamp r \<and> sequence st' = 0
           \<and> res_timestamp r = clock (reads w' - 1) \<and> reads w < reads w' - 1
           \<and> (\<forall>j. reads w < j \<and> j < reads w' - 1 \<longrightarrow> clock j \<le> lastTimestamp st)"
proof -
  let ?w = "if warn
              then w\<lparr>reads := Suc (reads w),
                     console := console w @ [ClockMovedBackwards (lastTimestamp st - clock (reads w))]\<rparr>
              else w\<lparr>reads := Suc (reads w)\<rparr>"
  have r: "reads ?w = Suc (reads w)" by simp
  then have "reads ?w \<le> k" using assms(3) by simp
  with wait_first [where v = ?w and k = k and clock = clock and lastTs = "lastTimestamp st"] assms(4)
  obtain t w' where wt: "waitForNextMillisecond clock (lastTimestamp st) ?w = Some (t, w')"
    and t: "lastTimestamp st < t" "t = clock (reads w' - 1)" "reads ?w < reads w'"
    and before: "\<forall>j. reads ?w \<le> j \<and> j < reads w' - 1 \<longrightarrow> clock j \<le> lastTimestamp st"
    by blast
  have "generateSnowflakeWithState clock st e m warn w =
      Some (Inr \<lparr>res_id = constructSnowflakeId t e m 0, res_timestamp = t, res_sequence = 0\<rparr>,
            st\<lparr>sequence := 0, lastTimestamp := t\<rparr>, w')"
    using generate_drift_wait [where clock = clock and w = w and st = st and e = e and m = m
        and warn = warn] assms(1,2) wt by simp
  moreover have "reads w < reads w' - 1" using t(3) unfolding r by simp
  moreover have "\<forall>j. reads w < j \<and> j < reads w' - 1 \<longrightarrow> clock j \<le> lastTimestamp st"
    using before unfolding r by (simp add: Suc_le_eq)
  ultimately show ?thesis using t(1,2) by simp
qed

lemma generate_small_drift_spins:
  assumes "clock (reads w) < lastTimestamp st" "lastTimestamp st - clock (reads w) \<le> 5000"
    and "\<And>k. reads w < k \<Longrightarrow> clock k \<le> lastTimestamp st"
  shows "generateSnowflakeWithState clock st e m warn w = None"
proof -
  let ?w = "if warn
              then w\<lparr>reads := Suc (reads w),
                     console := console w @ [ClockMovedBackwards (lastTimestamp st - clock (reads w))]\<rparr>
              else w\<lparr>reads := Suc (reads w)\<rparr>"
  have "waitForNextMillisecond clock (lastTimestamp st) ?w = None"
    by (rule wait_None) (use assms(3) in \<open>simp add: Suc_le_eq split: if_splits\<close>)
  then show ?thesis
    using generate_drift_wait [where clock = clock and w = w and st = st and e = e and m = m
        and warn = warn] assms(1,2) by simp
qed


lemma generate_exhausted_spins:
  assumes "clock (reads w) = lastTimestamp st" "(sequence st + 1) AND MAX_SEQUENCE = 0"
    and "\<And>k. reads w < k \<Longrightarrow> clock k \<le> lastTimestamp st"
  shows "generateSnowflakeWithState clock st e m warn w = None"
proof -
  have "waitForNextMillisecond clock (lastTimestamp st) (w\<lparr>reads := Suc (reads w)\<rparr>) = None"
    by (rule wait_None) (use assms(3) in \<open>simp add: Suc_le_eq\<close>)
  then show ?thesis
    using generate_exhausted [where clock = clock and w = w and st = st and e = e and m = m
        and warn = warn] assms(1,2) by simp
qed

lemmas create_defs = createSnowflakeGenerator_def validateMachineId_def validateEpoch_def
  BigInt_def Let_def

lemmas create_splits = prod.splits sum.splits if_splits number.splits option.splits

lemma created_machineId_range:
  assumes "createSnowflakeGenerator host clock options w = (Inr g, w')"
    and "0 \<le> random host" "random host < 1"
  shows "0 \<le> machineId g" "machineId g \<le> 1023"
proof -
  have "0 \<le> machineId g \<and> machineId g \<le> 1023"
  proof (cases "opt_machineId options")
    case None
    with assms(1) have "machineId g = fst (generateMachineIdFromHostname host w)"
      by (auto simp: create_defs split: prod.splits sum.splits if_splits number.splits)
    then show ?thesis
      using generateMachineIdFromHostname_range [of host w] assms(2,3) by simp
  next
    case (Some m)
    with assms(1) show ?thesis
      by (auto simp: create_defs MAX_values split: prod.splits sum.splits if_splits number.splits)
  qed
  then show "0 \<le> machineId g" "machineId g \<le> 1023" by simp_all
qed

subsection \<open>Concrete runs\<close>

text \<open>Calls on given clocks, states and hosts, evaluated; the claims are instantiated at these.\<close>

lemmas fixture_defs = frozenClock_def tickingClock_def scriptedClock_def newWorld_def
  createGeneratorState_def

lemma run_advance:
  "generateSnowflakeWithState (frozenClock 1000) createGeneratorState 0 5 True newWorld =
     Some (Inr \<lparr>res_id = 4194324480, res_timestamp = 1000, res_sequence = 0\<rparr>,
           \<lparr>sequence = 0, lastTimestamp = 1000\<rparr>, \<lparr>reads = 1, console = []\<rparr>)"
  by (subst generate_advance) (simp_all add: fixture_defs constructSnowflakeId_def MAX_values)

lemma run_same_ms:
  "generateSnowflakeWithState (frozenClock 1000) \<lparr>sequence = 0, lastTimestamp = 1000\<rparr> 0 5 True
       \<lparr>reads = 1, console = []\<rparr> =
     Some (Inr \<lparr>res_id = 4194324481, res_timestamp = 1000, res_sequence = 1\<rparr>,
           \<lparr>sequence = 1, lastTimestamp = 1000\<rparr>, \<lparr>reads = 2, console = []\<rparr>)"
  by (subst generate_same_ms) (simp_all add: fixture_defs constructSnowflakeId_def MAX_values)

lemma run_last_of_ms:
  "generateSnowflakeWithState (scriptedClock [1000, 1000, 1000] 1001)
       \<lparr>sequence = 4094, lastTimestamp = 1000\<rparr> 0 5 True newWorld =
     Some (Inr \<lparr>res_id = 4194328575, res_timestamp = 1000, res_sequence = 4095\<rparr>,
           \<lparr>sequence = 4095, lastTimestamp = 1000\<rparr>, \<lparr>reads = 1, console = []\<rparr>)"
  by (subst generate_same_ms) (simp_all add: fixture_defs constructSnowflakeId_def MAX_values)

lemma run_exhausted:
  "generateSnowflakeWithState (scriptedClock [1000, 1000, 1000] 1001)
       \<lparr>sequence = 4095, lastTimestamp = 1000\<rparr> 0 5 True \<lparr>reads = 1, console = []\<rparr> =
     Some (Inr \<lparr>res_id = 4198518784, res_timestamp = 1001, res_sequence = 0\<rparr>,
           \<lparr>sequence = 0, lastTimestamp = 1001\<rparr>, \<lparr>reads = 4, console = []\<rparr>)"
  by (subst generate_exhausted)
    (simp_all add: fixture_defs wait_now wait_later constructSnowflakeId_def MAX_values)

lemma run_big_drift:
  "generateSnowflakeWithState (scriptedClock [4000] 10001) \<lparr>sequence = 3, lastTimestamp = 10000\<rparr>
       0 5 True newWorld =
     Some (Inl (ClockDriftError 6000), \<lparr>sequence = 3, lastTimestamp = 10000\<rparr>,
           \<lparr>reads = 1, console = [ClockMovedBackwards 6000]\<rparr>)"
  by (subst generate_drift_error) (simp_all add: fixture_defs)

lemma run_small_drift:
  "generateSnowflakeWithState (scriptedClock [7000, 8000] 10001) \<lparr>sequence = 3, lastTimestamp = 10000\<rparr>
       0 5 True newWorld =
     Some (Inr \<lparr>res_id = 41947254784, res_timestamp = 10001, res_sequence = 0\<rparr>,
           \<lparr>sequence = 0, lastTimestamp = 10001\<rparr>,
           \<lparr>reads = 3, console = [ClockMovedBackwards 3000]\<rparr>)"
  by (subst generate_drift_wait)
    (simp_all add: fixture_defs wait_now wait_later constructSnowflakeId_def MAX_values)

lemma run_small_drift_silent:
  "generateSnowflakeWithState (scriptedClock [7000, 8000] 10001) \<lparr>sequence = 3, lastTimestamp = 10000\<rparr>
       0 5 False newWorld =
     Some (Inr \<lparr>res_id = 41947254784, res_timestamp = 10001, res_sequence = 0\<rparr>,
           \<lparr>sequence = 0, lastTimestamp = 10001\<rparr>,
           \<lparr>reads = 3, console = []\<rparr>)"
  by (subst generate_drift_wait)
    (simp_all add: fixture_defs wait_now wait_later constructSnowflakeId_def MAX_values)

lemma run_overflow:
  "generateSnowflakeWithState (frozenClock 2199023255552) createGeneratorState 0 0 True
       \<lparr>reads = 1, console = [TimestampOverflowSoon (- 1)]\<rparr> =
     Some (Inr \<lparr>res_id = 9223372036854775808, res_timestamp = 2199023255552, res_sequence = 0\<rparr>,
           \<lparr>sequence = 0, lastTimestamp = 2199023255552\<rparr>,
           \<lparr>reads = 2, console = [TimestampOverflowSoon (- 1)]\<rparr>)"
  by (subst generate_advance) (simp_all add: fixture_defs constructSnowflakeId_def MAX_values)

lemma create_at_overflow:
  "createSnowflakeGenerator localHost (frozenClock 2199023255552)
       \<lparr>opt_machineId = Some (Integer 0), opt_epoch = Some (Integer 0), opt_warnOnDrift = None\<rparr> newWorld =
     (Inr \<lparr>machineId = 0, epoch = 0, warnOnDrift = True, state = createGeneratorState\<rparr>,
      \<lparr>reads = 1, console = [TimestampOverflowSoon (- 1)]\<rparr>)"
  by (simp add: create_defs Number_exact fixture_defs MAX_values)

lemma create_default_localHost:
  "createSnowflakeGenerator localHost (frozenClock 1762000000000)
       \<lparr>opt_machineId = None, opt_epoch = None, opt_warnOnDrift = None\<rparr> newWorld =
     (Inr \<lparr>machineId = 406, epoch = 1752383159010, warnOnDrift = True, state = createGeneratorState\<rparr>,
      \<lparr>reads = 1, console = []\<rparr>)"
  by (simp add: create_defs Number_exact generateMachineIdFromHostname_def byteAt_def
      fixture_defs localHost_def DEFAULT_EPOCH_def MAX_values)

lemma create_default_namelessHost:
  "createSnowflakeGenerator namelessHost (frozenClock 1762000000000)
       \<lparr>opt_machineId = None, opt_epoch = None, opt_warnOnDrift = None\<rparr> newWorld =
     (Inr \<lparr>machineId = 512, epoch = 1752383159010, warnOnDrift = True, state = createGeneratorState\<rparr>,
      \<lparr>reads = 1, console = [HostnameFailed]\<rparr>)"
  by (simp add: create_defs Number_exact generateMachineIdFromHostname_def
      fixture_defs namelessHost_def DEFAULT_EPOCH_def MAX_values)

lemma run_tick_first:
  "generateSnowflakeWithState (tickingClock 1000) createGeneratorState 0 5 True newWorld =
     Some (Inr \<lparr>res_id = 4194324480, res_timestamp = 1000, res_sequence = 0\<rparr>,
           \<lparr>sequence = 0, lastTimestamp = 1000\<rparr>, \<lparr>reads = 1, console = []\<rparr>)"
  by (subst generate_advance) (simp_all add: fixture_defs constructSnowflakeId_def MAX_values)

lemma run_tick_second:
  "generateSnowflakeWithState (tickingClock 1000) \<lparr>sequence = 0, lastTimestamp = 1000\<rparr> 0 5 True
       \<lparr>reads = 1, console = []\<rparr> =
     Some (Inr \<lparr>res_id = 4198518784, res_timestamp = 1001, res_sequence = 0\<rparr>,
           \<lparr>sequence = 0, lastTimestamp = 1001\<rparr>, \<lparr>reads = 2, console = []\<rparr>)"
  by (subst generate_advance) (simp_all add: fixture_defs constructSnowflakeId_def MAX_values)

lemma run_generate_overflow:
  "generate (frozenClock 2199023255552)
       \<lparr>machineId = 0, epoch = 0, warnOnDrift = True, state = createGeneratorState\<rparr>
       \<lparr>reads = 1, console = [TimestampOverflowSoon (- 1)]\<rparr> =
     Some (Inr ''9223372036854775808'',
           \<lparr>machineId = 0, epoch = 0, warnOnDrift = True,
            state = \<lparr>sequence = 0, lastTimestamp = 2199023255552\<rparr>\<rparr>,
           \<lparr>reads = 2, console = [TimestampOverflowSoon (- 1)]\<rparr>)"
  using run_overflow by (simp add: generate_def toString_eval)

lemma run_exhausted_spins:
  "generateSnowflakeWithState (frozenClock 1000) \<lparr>sequence = 4095, lastTimestamp = 1000\<rparr> 0 5 True
       \<lparr>reads = 1, console = []\<rparr> = None"
  by (rule generate_exhausted_spins) (simp_all add: fixture_defs MAX_values)

lemma run_small_drift_spins:
  "generateSnowflakeWithState (frozenClock 7000) \<lparr>sequence = 3, lastTimestamp = 10000\<rparr> 0 5 True
       newWorld = None"
  by (rule generate_small_drift_spins) (simp_all add: fixture_defs)

section \<open>Claims\<close>

text \<open>
  Claim C1 (round trip).  For every machine ID in \<open>[0, 1023]\<close>, every sequence number
  in \<open>[0, 4095]\<close> and every timestamp \<open>now\<close> that \<open>Date.now()\<close> can give (a double) with
  \<open>0 \<le> now - epoch < 2 ^ 41\<close>, parsing the identifier that \<open>constructSnowflakeId\<close> packs,
  with the same epoch, gives back exactly the timestamp, the machine ID and the sequence
  number it was built from.  That holds for the identifier handed over as a \<open>bigint\<close>
  and for its decimal string, the form in which \<open>generate\<close> returns it.
\<close>

theorem parse_construct_roundtrip:
  assumes "0 \<le> mid" "mid \<le> 1023"
    and "0 \<le> sq" "sq \<le> 4095"
    and "0 \<le> now - ep" "now - ep < 2 ^ 41"
    and "representable now"
  shows "parseSnowflakeId (IdBigInt (constructSnowflakeId now ep mid sq)) (Some (Integer ep)) =
           Inr \<lparr>info_id = toString (constructSnowflakeId now ep mid sq),
                info_timestamp = Integer now, info_machineId = Integer mid,
                info_sequence = Integer sq\<rparr>
       \<and> parseSnowflakeId (IdString (toString (constructSnowflakeId now ep mid sq)))
             (Some (Integer ep)) =
           Inr \<lparr>info_id = toString (constructSnowflakeId now ep mid sq),
                info_timestamp = Integer now, info_machineId = Integer mid,
                info_sequence = Integer sq\<rparr>"
proof -
  have "Number now = Integer now"
    using assms(7) by (simp add: representable_def)
  then show ?thesis
    using assms(1-4)
    by (simp add: parseSnowflakeId_IdBigInt parseSnowflakeId_IdString fields_of_construct)
qed

theorem parse_construct_roundtrip_witness:
  "representable 1752383160010
   \<and> parseSnowflakeId (IdBigInt (constructSnowflakeId 1752383160010 1752383159010 5 7))
       (Some (Integer 1752383159010)) =
     Inr \<lparr>info_id = ''4194324487'', info_timestamp = Integer 1752383160010,
          info_machineId = Integer 5, info_sequence = Integer 7\<rparr>
   \<and> parseSnowflakeId (IdString ''4194324487'') (Some (Integer 1752383159010)) =
     Inr \<lparr>info_id = ''4194324487'', info_timestamp = Integer 1752383160010,
          info_machineId = Integer 5, info_sequence = Integer 7\<rparr>"
proof -
  have c: "constructSnowflakeId 1752383160010 1752383159010 5 7 = 4194324487"
    by (simp add: constructSnowflakeId_def MAX_values)
  have s: "toString 4194324487 = ''4194324487''"
    by (simp add: toString_eval)
  have r: "representable 1752383160010"
    by (rule representable_safe) simp
  show ?thesis
    using parse_construct_roundtrip [of 5 7 1752383160010 1752383159010] r
    by (simp add: c s)
qed

text \<open>
  Claim C5, as amended.  For every integer \<open>k\<close>, hence every 64-bit one, given as a
  \<open>bigint\<close> or as its decimal string, and for every integer epoch, \<open>parseSnowflakeId\<close>
  returns a result: the sequence number is \<open>k AND 0xFFF\<close>, the machine ID is
  \<open>(k >> 12) AND 0x3FF\<close>, and the timestamp is the double nearest to \<open>(k >> 22) + epoch\<close>,
  which is \<open>(k >> 22) + epoch\<close> itself whenever that is at most \<open>2 ^ 53\<close> in magnitude.
  No field is validated.  The machine ID so returned lies in \<open>[0, 1023]\<close> and the
  sequence number in \<open>[0, 4095]\<close>.  The string \<open>4194324480\<close> with epoch 0 parses to
  timestamp 1000, machine ID 5, sequence number 0.
\<close>

theorem parseSnowflakeId_fields:
  "parseSnowflakeId (IdBigInt k) (Some (Integer ep)) =
     Inr \<lparr>info_id = toString k, info_timestamp = Number (drop_bit 22 k + ep),
          info_machineId = Integer (drop_bit 12 k AND 1023), info_sequence = Integer (k AND 4095)\<rparr>
   \<and> parseSnowflakeId (IdString (toString k)) (Some (Integer ep)) =
     Inr \<lparr>info_id = toString k, info_timestamp = Number (drop_bit 22 k + ep),
          info_machineId = Integer (drop_bit 12 k AND 1023), info_sequence = Integer (k AND 4095)\<rparr>
   \<and> (\<bar>drop_bit 22 k + ep\<bar> \<le> 2 ^ 53 \<longrightarrow>
        Number (drop_bit 22 k + ep) = Integer (drop_bit 22 k + ep))
   \<and> 0 \<le> drop_bit 12 k AND (1023 :: int) \<and> drop_bit 12 k AND 1023 \<le> 1023
   \<and> 0 \<le> k AND 4095 \<and> k AND 4095 \<le> 4095
   \<and> parseSnowflakeId (IdString ''4194324480'') (Some (Integer 0)) =
     Inr \<lparr>info_id = ''4194324480'', info_timestamp = Integer 1000, info_machineId = Integer 5,
          info_sequence = Integer 0\<rparr>"
proof -
  have "parseSnowflakeId (IdString ''4194324480'') (Some (Integer 0)) =
     Inr \<lparr>info_id = ''4194324480'', info_timestamp = Integer 1000, info_machineId = Integer 5,
          info_sequence = Integer 0\<rparr>"
    by (simp add: parseSnowflakeId_def BigInt_def StringToBigInt_eval MAX_values Number_exact)
  moreover have "drop_bit 12 k AND 1023 \<le> 1023" "k AND 4095 \<le> 4095"
    by (simp_all add: AND_upper2)
  ultimately show ?thesis
    by (simp add: parseSnowflakeId_IdBigInt parseSnowflakeId_IdString Number_exact)
qed

theorem parseSnowflakeId_fields_witness:
  "\<bar>drop_bit 22 (4194324480 :: int) + 0\<bar> \<le> 2 ^ 53
   \<and> parseSnowflakeId (IdBigInt 4194324480) (Some (Integer 0)) =
     Inr \<lparr>info_id = ''4194324480'', info_timestamp = Integer 1000, info_machineId = Integer 5,
          info_sequence = Integer 0\<rparr>"
proof -
  have s: "toString 4194324480 = ''4194324480''"
    by (simp add: toString_eval)
  show ?thesis
    using parseSnowflakeId_fields [of 4194324480 0]
    by (simp add: s)
qed

text \<open>
  Claim C5 as stated fails.  For the identifier 4194304, whose timestamp field is 1,
  and the epoch \<open>2 ^ 53\<close> the timestamp returned is \<open>2 ^ 53\<close> and not \<open>2 ^ 53 + 1\<close>, because
  \<open>Number\<close> rounds; and for an epoch that is no integer the call throws \<open>RangeError\<close>.
\<close>

theorem parseSnowflakeId_rounds_or_throws:
  "parseSnowflakeId (IdBigInt 4194304) (Some (Integer 9007199254740992)) =
     Inr \<lparr>info_id = ''4194304'', info_timestamp = Integer 9007199254740992,
          info_machineId = Integer 0, info_sequence = Integer 0\<rparr>
   \<and> drop_bit 22 (4194304 :: int) + 9007199254740992 = 9007199254740993
   \<and> parseSnowflakeId (IdBigInt 4194304) (Some NonInteger) = Inl RangeError"
proof -
  have s: "toString 4194304 = ''4194304''"
    by (simp add: toString_eval)
  show ?thesis
    by (simp add: parseSnowflakeId_IdBigInt parseSnowflakeId_NonInteger Number_rounds s)
qed

text \<open>
  Claim C2 (strict ordering).  Take a generator with a machine ID in \<open>[0, 1023]\<close> and two
  consecutive calls of \<open>generateSnowflakeWithState\<close> on its state that both return an
  identifier, the second starting from the state and the world the first left.  Then the
  second identifier is strictly greater than the first.  The proof covers the three ways
  the second call can succeed: the sequence number grows within the millisecond, the
  sequence number is used up and the call waits for the next millisecond, or the clock
  has moved on and the sequence number starts again at 0.  No assumption on the clock is
  needed, so the statement holds in particular for a clock that never goes back.
\<close>

theorem consecutive_ids_increase:
  assumes "0 \<le> mid" "mid \<le> 1023"
    and "generateSnowflakeWithState clock st0 ep mid warn w0 = Some (Inr r1, st1, w1)"
    and "generateSnowflakeWithState clock st1 ep mid warn w1 = Some (Inr r2, st2, w2)"
  shows "res_id r1 < res_id r2"
proof -
  note first = generate_Inr [OF assms(3)] and second = generate_Inr [OF assms(4)]
  have s1: "0 \<le> res_sequence r1" "res_sequence r1 \<le> 4095"
    using generate_sequence_range [OF assms(3)] .
  have s2: "0 \<le> res_sequence r2" "res_sequence r2 \<le> 4095"
    using generate_sequence_range [OF assms(4)] .
  have st1: "lastTimestamp st1 = res_timestamp r1" "sequence st1 = res_sequence r1"
    using first(2) by simp_all
  have "res_timestamp r1 < res_timestamp r2
        \<or> res_timestamp r1 = res_timestamp r2 \<and> res_sequence r1 < res_sequence r2"
    using second(3)
  proof
    assume "lastTimestamp st1 < res_timestamp r2 \<and> res_sequence r2 = 0"
    then show ?thesis by (simp add: st1)
  next
    assume same: "clock (reads w1) = lastTimestamp st1 \<and> res_timestamp r2 = lastTimestamp st1
      \<and> res_sequence r2 = (sequence st1 + 1) AND MAX_SEQUENCE \<and> res_sequence r2 \<noteq> 0"
    then have "res_sequence r2 = (res_sequence r1 + 1) mod 4096" "res_sequence r2 \<noteq> 0"
      by (simp_all add: st1 sequence_mask_mod)
    with s1 have "res_sequence r2 = res_sequence r1 + 1"
      by (cases "res_sequence r1 = 4095") simp_all
    with same show ?thesis by (simp add: st1)
  qed
  then show ?thesis
    unfolding first(1) second(1) using assms(1,2) s1 s2 by (intro construct_less) simp_all
qed

theorem consecutive_ids_increase_witness:
  "generateSnowflakeWithState (frozenClock 1000) createGeneratorState 0 5 True newWorld =
     Some (Inr \<lparr>res_id = 4194324480, res_timestamp = 1000, res_sequence = 0\<rparr>,
           \<lparr>sequence = 0, lastTimestamp = 1000\<rparr>, \<lparr>reads = 1, console = []\<rparr>)
   \<and> generateSnowflakeWithState (frozenClock 1000) \<lparr>sequence = 0, lastTimestamp = 1000\<rparr> 0 5 True
       \<lparr>reads = 1, console = []\<rparr> =
     Some (Inr \<lparr>res_id = 4194324481, res_timestamp = 1000, res_sequence = 1\<rparr>,
           \<lparr>sequence = 1, lastTimestamp = 1000\<rparr>, \<lparr>reads = 2, console = []\<rparr>)
   \<and> res_id \<lparr>res_id = 4194324480, res_timestamp = 1000, res_sequence = 0\<rparr>
     < res_id \<lparr>res_id = 4194324481, res_timestamp = 1000, res_sequence = 1\<rparr>
   \<and> generateSnowflakeWithState (scriptedClock [1000, 1000, 1000] 1001)
       \<lparr>sequence = 4094, lastTimestamp = 1000\<rparr> 0 5 True newWorld =
     Some (Inr \<lparr>res_id = 4194328575, res_timestamp = 1000, res_sequence = 4095\<rparr>,
           \<lparr>sequence = 4095, lastTimestamp = 1000\<rparr>, \<lparr>reads = 1, console = []\<rparr>)
   \<and> generateSnowflakeWithState (scriptedClock [1000, 1000, 1000] 1001)
       \<lparr>sequence = 4095, lastTimestamp = 1000\<rparr> 0 5 True \<lparr>reads = 1, console = []\<rparr> =
     Some (Inr \<lparr>res_id = 4198518784, res_timestamp = 1001, res_sequence = 0\<rparr>,
           \<lparr>sequence = 0, lastTimestamp = 1001\<rparr>, \<lparr>reads = 4, console = []\<rparr>)
   \<and> res_id \<lparr>res_id = 4194328575, res_timestamp = 1000, res_sequence = 4095\<rparr>
     < res_id \<lparr>res_id = 4198518784, res_timestamp = 1001, res_sequence = 0\<rparr>
   \<and> generateSnowflakeWithState (tickingClock 1000) createGeneratorState 0 5 True newWorld =
     Some (Inr \<lparr>res_id = 4194324480, res_timestamp = 1000, res_sequence = 0\<rparr>,
           \<lparr>sequence = 0, lastTimestamp = 1000\<rparr>, \<lparr>reads = 1, console = []\<rparr>)
   \<and> generateSnowflakeWithState (tickingClock 1000) \<lparr>sequence = 0, lastTimestamp = 1000\<rparr> 0 5 True
       \<lparr>reads = 1, console = []\<rparr> =
     Some (Inr \<lparr>res_id = 4198518784, res_timestamp = 1001, res_sequence = 0\<rparr>,
           \<lparr>sequence = 0, lastTimestamp = 1001\<rparr>, \<lparr>reads = 2, console = []\<rparr>)
   \<and> res_id \<lparr>res_id = 4194324480, res_timestamp = 1000, res_sequence = 0\<rparr>
     < res_id \<lparr>res_id = 4198518784, res_timestamp = 1001, res_sequence = 0\<rparr>"
proof -
  have five: "(0::int) \<le> 5" "(5::int) \<le> 1023" by simp_all
  note same = consecutive_ids_increase [OF five run_advance run_same_ms]
    and full = consecutive_ids_increase [OF five run_last_of_ms run_exhausted]
    and tick = consecutive_ids_increase [OF five run_tick_first run_tick_second]
  from same full tick run_advance run_same_ms run_last_of_ms run_exhausted
    run_tick_first run_tick_second
  show ?thesis by blast
qed

text \<open>
  Claim C3 (clock drift).  A call of \<open>generateSnowflakeWithState\<close> first reads the clock.
  If the value read lies more than 5000 ms before \<open>lastTimestamp\<close>, the call throws
  \<open>ClockDriftError\<close> with that drift, after this one reading of the clock (nothing is
  retried) and with the state as it was.  In every other case the call throws no error
  at all.  If the value read lies before \<open>lastTimestamp\<close> by at most 5000 ms, the call
  reads the clock again and again: when some later reading shows a value beyond
  \<open>lastTimestamp\<close>, the call returns, the timestamp of its identifier is the value of its
  last reading, that value lies beyond \<open>lastTimestamp\<close>, and every reading between the
  first and the last showed a value not beyond it; when no later reading does, the call
  never returns.
\<close>

theorem clock_drift_error_iff:
  "(clock (reads w) < lastTimestamp st \<and> 5000 < lastTimestamp st - clock (reads w) \<longrightarrow>
      (\<exists>w'. generateSnowflakeWithState clock st ep mid warn w =
               Some (Inl (ClockDriftError (lastTimestamp st - clock (reads w))), st, w')
            \<and> reads w' = Suc (reads w)))
   \<and> (\<not> (clock (reads w) < lastTimestamp st \<and> 5000 < lastTimestamp st - clock (reads w)) \<longrightarrow>
      (\<forall>err st' w'. generateSnowflakeWithState clock st ep mid warn w \<noteq> Some (Inl err, st', w')))
   \<and> (clock (reads w) < lastTimestamp st \<and> lastTimestamp st - clock (reads w) \<le> 5000
        \<and> (\<exists>k. reads w < k \<and> lastTimestamp st < clock k) \<longrightarrow>
      (\<exists>r st' w'. generateSnowflakeWithState clock st ep mid warn w = Some (Inr r, st', w')
            \<and> lastTimestamp st < res_timestamp r
            \<and> res_timestamp r = clock (reads w' - 1) \<and> reads w < reads w' - 1
            \<and> (\<forall>j. reads w < j \<and> j < reads w' - 1 \<longrightarrow> clock j \<le> lastTimestamp st)))
   \<and> (clock (reads w) < lastTimestamp st \<and> lastTimestamp st - clock (reads w) \<le> 5000
        \<and> (\<forall>k. reads w < k \<longrightarrow> clock k \<le> lastTimestamp st) \<longrightarrow>
      generateSnowflakeWithState clock st ep mid warn w = None)"
proof (intro conjI impI)
  assume a: "clock (reads w) < lastTimestamp st \<and> 5000 < lastTimestamp st - clock (reads w)"
  then show "\<exists>w'. generateSnowflakeWithState clock st ep mid warn w =
               Some (Inl (ClockDriftError (lastTimestamp st - clock (reads w))), st, w')
            \<and> reads w' = Suc (reads w)"
    using generate_drift_error [where clock = clock and w = w and st = st and e = ep
        and m = mid and warn = warn]
    by (cases warn) simp_all
next
  assume "\<not> (clock (reads w) < lastTimestamp st \<and> 5000 < lastTimestamp st - clock (reads w))"
  then show "\<forall>err st' w'. generateSnowflakeWithState clock st ep mid warn w \<noteq> Some (Inl err, st', w')"
    using generate_Inl(1,2) by blast
next
  assume "clock (reads w) < lastTimestamp st \<and> lastTimestamp st - clock (reads w) \<le> 5000
        \<and> (\<exists>k. reads w < k \<and> lastTimestamp st < clock k)"
  then obtain k where "clock (reads w) < lastTimestamp st" "lastTimestamp st - clock (reads w) \<le> 5000"
    "reads w < k" "lastTimestamp st < clock k"
    by blast
  from generate_small_drift_first [OF this, of ep mid warn]
  show "\<exists>r st' w'. generateSnowflakeWithState clock st ep mid warn w = Some (Inr r, st', w')
            \<and> lastTimestamp st < res_timestamp r
            \<and> res_timestamp r = clock (reads w' - 1) \<and> reads w < reads w' - 1
            \<and> (\<forall>j. reads w < j \<and> j < reads w' - 1 \<longrightarrow> clock j \<le> lastTimestamp st)"
    by blast
next
  assume "clock (reads w) < lastTimestamp st \<and> lastTimestamp st - clock (reads w) \<le> 5000
        \<and> (\<forall>k. reads w < k \<longrightarrow> clock k \<le> lastTimestamp st)"
  then show "generateSnowflakeWithState clock st ep mid warn w = None"
    by (intro generate_small_drift_spins) simp_all
qed

theorem clock_drift_error_iff_witness:
  "(\<exists>w'. generateSnowflakeWithState (scriptedClock [4000] 10001)
            \<lparr>sequence = 3, lastTimestamp = 10000\<rparr> 0 5 True newWorld =
          Some (Inl (ClockDriftError 6000), \<lparr>sequence = 3, lastTimestamp = 10000\<rparr>, w')
        \<and> reads w' = 1)
   \<and> (\<forall>err st' w'. generateSnowflakeWithState (scriptedClock [7000, 8000] 10001)
            \<lparr>sequence = 3, lastTimestamp = 10000\<rparr> 0 5 True newWorld \<noteq> Some (Inl err, st', w'))
   \<and> (\<exists>r st' w'. generateSnowflakeWithState (scriptedClock [7000, 8000] 10001)
            \<lparr>sequence = 3, lastTimestamp = 10000\<rparr> 0 5 True newWorld = Some (Inr r, st', w')
        \<and> 10000 < res_timestamp r
        \<and> res_timestamp r = scriptedClock [7000, 8000] 10001 (reads w' - 1) \<and> 0 < reads w' - 1
        \<and> (\<forall>j. 0 < j \<and> j < reads w' - 1 \<longrightarrow> scriptedClock [7000, 8000] 10001 j \<le> 10000))
   \<and> generateSnowflakeWithState (frozenClock 7000) \<lparr>sequence = 3, lastTimestamp = 10000\<rparr> 0 5 True
        newWorld = None"
proof -
  have k: "\<exists>k. reads newWorld < k
      \<and> lastTimestamp \<lparr>sequence = 3, lastTimestamp = 10000\<rparr> < scriptedClock [7000, 8000] 10001 k"
    by (rule exI [of _ 2]) (simp add: fixture_defs)
  show ?thesis
    using clock_drift_error_iff [of "scriptedClock [4000] 10001" newWorld
        "\<lparr>sequence = 3, lastTimestamp = 10000\<rparr>" 0 5 True]
      clock_drift_error_iff [of "scriptedClock [7000, 8000] 10001" newWorld
        "\<lparr>sequence = 3, lastTimestamp = 10000\<rparr>" 0 5 True]
      clock_drift_error_iff [of "frozenClock 7000" newWorld
        "\<lparr>sequence = 3, lastTimestamp = 10000\<rparr>" 0 5 True] k
    by (simp add: fixture_defs)
qed

text \<open>
  Claim C4 (no partial failure).  When \<open>generateSnowflakeWithState\<close> throws, the state
  it leaves is the state it was called with: \<open>sequence\<close> and \<open>lastTimestamp\<close> are
  unchanged.  When it returns, \<open>lastTimestamp\<close> is the timestamp of the returned
  identifier, \<open>sequence\<close> is its sequence number, the identifier is packed from exactly
  these, \<open>lastTimestamp\<close> has not gone back and the state differs from the one before.
\<close>

theorem generate_atomic:
  "(generateSnowflakeWithState clock st ep mid warn w = Some (Inl err, st', w') \<longrightarrow>
      st' = st \<and> sequence st' = sequence st \<and> lastTimestamp st' = lastTimestamp st)
   \<and> (generateSnowflakeWithState clock st ep mid warn w = Some (Inr r, st', w') \<longrightarrow>
      lastTimestamp st' = res_timestamp r \<and> sequence st' = res_sequence r
      \<and> res_id r = constructSnowflakeId (res_timestamp r) ep mid (res_sequence r)
      \<and> lastTimestamp st \<le> lastTimestamp st' \<and> st' \<noteq> st)"
proof (intro conjI impI)
  assume "generateSnowflakeWithState clock st ep mid warn w = Some (Inl err, st', w')"
  then have "st' = st" by (rule generate_Inl(4))
  then show "st' = st" "sequence st' = sequence st" "lastTimestamp st' = lastTimestamp st"
    by simp_all
next
  assume a: "generateSnowflakeWithState clock st ep mid warn w = Some (Inr r, st', w')"
  note g = generate_Inr [OF a]
  show "lastTimestamp st' = res_timestamp r" "sequence st' = res_sequence r"
    using g(2) by simp_all
  show "res_id r = constructSnowflakeId (res_timestamp r) ep mid (res_sequence r)"
    by (rule g(1))
  show "lastTimestamp st \<le> lastTimestamp st'"
    using g(2,3) by auto
  show "st' \<noteq> st"
  proof
    assume "st' = st"
    moreover have "lastTimestamp st' = res_timestamp r" "sequence st' = res_sequence r"
      using g(2) by simp_all
    ultimately have "lastTimestamp st = res_timestamp r" "sequence st = res_sequence r"
      by simp_all
    with g(3) increment_changes [of "sequence st"] show False by auto
  qed
qed

theorem generate_atomic_witness:
  "generateSnowflakeWithState (scriptedClock [4000] 10001) \<lparr>sequence = 3, lastTimestamp = 10000\<rparr>
       0 5 True newWorld =
     Some (Inl (ClockDriftError 6000), \<lparr>sequence = 3, lastTimestamp = 10000\<rparr>,
           \<lparr>reads = 1, console = [ClockMovedBackwards 6000]\<rparr>)
   \<and> sequence \<lparr>sequence = 3, lastTimestamp = 10000\<rparr> = 3
   \<and> generateSnowflakeWithState (frozenClock 1000) createGeneratorState 0 5 True newWorld =
     Some (Inr \<lparr>res_id = 4194324480, res_timestamp = 1000, res_sequence = 0\<rparr>,
           \<lparr>sequence = 0, lastTimestamp = 1000\<rparr>, \<lparr>reads = 1, console = []\<rparr>)
   \<and> lastTimestamp \<lparr>sequence = 0, lastTimestamp = 1000\<rparr> = 1000
   \<and> lastTimestamp createGeneratorState \<le> lastTimestamp \<lparr>sequence = 0, lastTimestamp = 1000\<rparr>
   \<and> \<lparr>sequence = 0, lastTimestamp = 1000\<rparr> \<noteq> createGeneratorState"
  using
    generate_atomic [where clock = "scriptedClock [4000] 10001"
      and st = "\<lparr>sequence = 3, lastTimestamp = 10000\<rparr>" and ep = 0 and mid = 5
      and warn = True and w = newWorld and err = "ClockDriftError 6000"
      and st' = "\<lparr>sequence = 3, lastTimestamp = 10000\<rparr>"
      and w' = "\<lparr>reads = 1, console = [ClockMovedBackwards 6000]\<rparr>"]
    generate_atomic [where clock = "frozenClock 1000" and st = createGeneratorState
      and ep = 0 and mid = 5 and warn = True and w = newWorld
      and r = "\<lparr>res_id = 4194324480, res_timestamp = 1000, res_sequence = 0\<rparr>"
      and st' = "\<lparr>sequence = 0, lastTimestamp = 1000\<rparr>"
      and w' = "\<lparr>reads = 1, console = []\<rparr>"]
    run_big_drift run_advance
  by simp



text \<open>
  Claim C7, as amended.  For a generator with a machine ID in \<open>[0, 1023]\<close>, every
  identifier returned with a timestamp such that \<open>0 \<le> timestamp - epoch < 2 ^ 41\<close>
  satisfies \<open>0 \<le> id < 2 ^ 63\<close>.
\<close>

theorem id_below_2_63:
  assumes "0 \<le> mid" "mid \<le> 1023"
    and "generateSnowflakeWithState clock st ep mid warn w = Some (Inr r, st', w')"
    and "0 \<le> res_timestamp r - ep" "res_timestamp r - ep < 2 ^ 41"
  shows "0 \<le> res_id r \<and> res_id r < 2 ^ 63"
proof -
  have s: "0 \<le> res_sequence r" "res_sequence r \<le> 4095"
    using generate_sequence_range [OF assms(3)] .
  have i: "res_id r = (res_timestamp r - ep) * 2 ^ 22 + mid * 2 ^ 12 + res_sequence r"
    unfolding generate_Inr(1) [OF assms(3)] using assms(1,2) s by (simp add: construct_arith)
  have "(res_timestamp r - ep) * 2 ^ 22 \<le> (2 ^ 41 - 1) * 2 ^ 22"
    using assms(5) by (intro mult_right_mono) simp_all
  moreover have "0 \<le> (res_timestamp r - ep) * 2 ^ 22"
    using assms(4) by simp
  moreover have "mid * 2 ^ 12 \<le> 1023 * 2 ^ 12" "0 \<le> mid * 2 ^ 12"
    using assms(1,2) by simp_all
  ultimately show ?thesis
    unfolding i using s by simp
qed

theorem id_below_2_63_witness:
  "generateSnowflakeWithState (frozenClock 1000) createGeneratorState 0 5 True newWorld =
     Some (Inr \<lparr>res_id = 4194324480, res_timestamp = 1000, res_sequence = 0\<rparr>,
           \<lparr>sequence = 0, lastTimestamp = 1000\<rparr>, \<lparr>reads = 1, console = []\<rparr>)
   \<and> 0 \<le> res_id \<lparr>res_id = 4194324480, res_timestamp = 1000, res_sequence = 0\<rparr>
   \<and> res_id \<lparr>res_id = 4194324480, res_timestamp = 1000, res_sequence = 0\<rparr> < 2 ^ 63"
proof -
  have five: "(0::int) \<le> 5" "(5::int) \<le> 1023" by simp_all
  have t: "0 \<le> res_timestamp \<lparr>res_id = 4194324480, res_timestamp = 1000, res_sequence = 0\<rparr> - 0"
    "res_timestamp \<lparr>res_id = 4194324480, res_timestamp = 1000, res_sequence = 0\<rparr> - 0 < 2 ^ 41"
    by simp_all
  from id_below_2_63 [OF five run_advance t] run_advance
  show ?thesis by blast
qed

text \<open>
  Claim C7 as stated fails.  A generator constructed with epoch 0 and machine ID 0 when
  the clock shows \<open>2 ^ 41\<close> ms (construction succeeds, with the overflow warning) returns
  on its first call the identifier \<open>2 ^ 63\<close>, which is not below \<open>2 ^ 63\<close>; \<open>generate\<close>
  hands it out as the string \<open>9223372036854775808\<close>.
\<close>

theorem id_reaches_2_63:
  "createSnowflakeGenerator localHost (frozenClock 2199023255552)
       \<lparr>opt_machineId = Some (Integer 0), opt_epoch = Some (Integer 0), opt_warnOnDrift = None\<rparr> newWorld =
     (Inr \<lparr>machineId = 0, epoch = 0, warnOnDrift = True, state = createGeneratorState\<rparr>,
      \<lparr>reads = 1, console = [TimestampOverflowSoon (- 1)]\<rparr>)
   \<and> generateSnowflakeWithState (frozenClock 2199023255552) createGeneratorState 0 0 True
       \<lparr>reads = 1, console = [TimestampOverflowSoon (- 1)]\<rparr> =
     Some (Inr \<lparr>res_id = 9223372036854775808, res_timestamp = 2199023255552, res_sequence = 0\<rparr>,
           \<lparr>sequence = 0, lastTimestamp = 2199023255552\<rparr>,
           \<lparr>reads = 2, console = [TimestampOverflowSoon (- 1)]\<rparr>)
   \<and> generate (frozenClock 2199023255552)
       \<lparr>machineId = 0, epoch = 0, warnOnDrift = True, state = createGeneratorState\<rparr>
       \<lparr>reads = 1, console = [TimestampOverflowSoon (- 1)]\<rparr> =
     Some (Inr ''9223372036854775808'',
           \<lparr>machineId = 0, epoch = 0, warnOnDrift = True,
            state = \<lparr>sequence = 0, lastTimestamp = 2199023255552\<rparr>\<rparr>,
           \<lparr>reads = 2, console = [TimestampOverflowSoon (- 1)]\<rparr>)
   \<and> \<not> res_id \<lparr>res_id = 9223372036854775808, res_timestamp = 2199023255552, res_sequence = 0\<rparr>
         < 2 ^ 63"
  using create_at_overflow run_overflow run_generate_overflow by simp

text \<open>
  Claim C8, as amended.  When the options carry a machine ID that is not an integer in
  \<open>[0, 1023]\<close> (a non-integer, a negative integer or one above 1023), construction fails
  and produces no generator; when moreover the epoch of the options is left out or is
  an integer, \<open>createSnowflakeGenerator\<close> throws \<open>InvalidMachineId\<close>, before the clock is
  read or anything is written to the console.  When the options carry an integer in
  \<open>[0, 1023]\<close>, the call does not throw \<open>InvalidMachineId\<close>, and a generator it returns has
  that machine ID.  Machine ID 1024 is rejected in this way.
\<close>

theorem invalid_machineId_rejected:
  "(opt_machineId options = Some m
      \<and> (case m of Integer i \<Rightarrow> i < 0 \<or> 1023 < i | NonInteger \<Rightarrow> True) \<longrightarrow>
        (\<forall>g. fst (createSnowflakeGenerator host clock options w) \<noteq> Inr g)
        \<and> (opt_epoch options \<noteq> Some NonInteger \<longrightarrow>
              createSnowflakeGenerator host clock options w = (Inl InvalidMachineId, w)))
   \<and> (opt_machineId options = Some (Integer i) \<and> 0 \<le> i \<and> i \<le> 1023 \<longrightarrow>
        fst (createSnowflakeGenerator host clock options w) \<noteq> Inl InvalidMachineId
        \<and> (\<forall>g w'. createSnowflakeGenerator host clock options w = (Inr g, w') \<longrightarrow> machineId g = i))
   \<and> (opt_epoch options \<noteq> Some NonInteger \<longrightarrow>
        createSnowflakeGenerator host clock (options\<lparr>opt_machineId := Some (Integer 1024)\<rparr>) w =
          (Inl InvalidMachineId, w))"
proof (intro conjI impI)
  assume a: "opt_machineId options = Some m
      \<and> (case m of Integer i \<Rightarrow> i < 0 \<or> 1023 < i | NonInteger \<Rightarrow> True)"
  then have v: "validateMachineId m = Inl InvalidMachineId"
    by (cases m) (auto simp: validateMachineId_def MAX_values)
  with a show "\<forall>g. fst (createSnowflakeGenerator host clock options w) \<noteq> Inr g"
    by (auto simp: createSnowflakeGenerator_def BigInt_def split: create_splits)
  {
    assume "opt_epoch options \<noteq> Some NonInteger"
    with a v show "createSnowflakeGenerator host clock options w = (Inl InvalidMachineId, w)"
      by (auto simp: createSnowflakeGenerator_def BigInt_def split: create_splits)
  }
next
  assume a: "opt_machineId options = Some (Integer i) \<and> 0 \<le> i \<and> i \<le> 1023"
  then have v: "validateMachineId (Integer i) = Inr i"
    by (simp add: validateMachineId_def MAX_values)
  with a show "fst (createSnowflakeGenerator host clock options w) \<noteq> Inl InvalidMachineId"
    by (auto simp: createSnowflakeGenerator_def BigInt_def validateEpoch_def Let_def
        split: create_splits)
  from a v show "\<forall>g w'. createSnowflakeGenerator host clock options w = (Inr g, w') \<longrightarrow> machineId g = i"
    by (auto simp: createSnowflakeGenerator_def BigInt_def validateEpoch_def Let_def
        split: create_splits)
next
  assume "opt_epoch options \<noteq> Some NonInteger"
  then show "createSnowflakeGenerator host clock (options\<lparr>opt_machineId := Some (Integer 1024)\<rparr>) w =
        (Inl InvalidMachineId, w)"
    by (auto simp: createSnowflakeGenerator_def BigInt_def validateMachineId_def MAX_values
        split: create_splits)
qed

theorem invalid_machineId_rejected_witness:
  "createSnowflakeGenerator localHost (frozenClock 1762000000000)
       \<lparr>opt_machineId = Some (Integer 1024), opt_epoch = None, opt_warnOnDrift = None\<rparr> newWorld =
     (Inl InvalidMachineId, newWorld)
   \<and> createSnowflakeGenerator localHost (frozenClock 1762000000000)
       \<lparr>opt_machineId = Some NonInteger, opt_epoch = Some (Integer 0), opt_warnOnDrift = None\<rparr> newWorld =
     (Inl InvalidMachineId, newWorld)
   \<and> createSnowflakeGenerator localHost (frozenClock 1762000000000)
       \<lparr>opt_machineId = Some (Integer (- 1)), opt_epoch = None, opt_warnOnDrift = None\<rparr> newWorld =
     (Inl InvalidMachineId, newWorld)
   \<and> (\<forall>g. fst (createSnowflakeGenerator localHost (frozenClock 1762000000000)
       \<lparr>opt_machineId = Some (Integer 1024), opt_epoch = Some NonInteger, opt_warnOnDrift = None\<rparr> newWorld)
     \<noteq> Inr g)
   \<and> fst (createSnowflakeGenerator localHost (frozenClock 1762000000000)
       \<lparr>opt_machineId = Some (Integer 5), opt_epoch = None, opt_warnOnDrift = None\<rparr> newWorld)
     \<noteq> Inl InvalidMachineId"
  using
    invalid_machineId_rejected [where options = "\<lparr>opt_machineId = Some (Integer 1024), opt_epoch = None, opt_warnOnDrift = None\<rparr>"
      and m = "Integer 1024" and host = localHost and clock = "frozenClock 1762000000000" and w = newWorld]
    invalid_machineId_rejected [where options = "\<lparr>opt_machineId = Some NonInteger, opt_epoch = Some (Integer 0), opt_warnOnDrift = None\<rparr>"
      and m = NonInteger and host = localHost and clock = "frozenClock 1762000000000" and w = newWorld]
    invalid_machineId_rejected [where options = "\<lparr>opt_machineId = Some (Integer (- 1)), opt_epoch = None, opt_warnOnDrift = None\<rparr>"
      and m = "Integer (- 1)" and host = localHost and clock = "frozenClock 1762000000000" and w = newWorld]
    invalid_machineId_rejected [where options = "\<lparr>opt_machineId = Some (Integer 1024), opt_epoch = Some NonInteger, opt_warnOnDrift = None\<rparr>"
      and m = "Integer 1024" and host = localHost and clock = "frozenClock 1762000000000" and w = newWorld]
    invalid_machineId_rejected [where options = "\<lparr>opt_machineId = Some (Integer 5), opt_epoch = None, opt_warnOnDrift = None\<rparr>"
      and i = 5 and host = localHost and clock = "frozenClock 1762000000000" and w = newWorld]
  by simp

text \<open>
  Claim C8 as stated fails.  With machine ID 1024 and an epoch that is no integer (1.5,
  say) the call throws \<open>RangeError\<close>, not \<open>InvalidMachineId\<close>: \<open>BigInt\<close> of the epoch comes
  before the machine ID is validated.
\<close>

theorem invalid_machineId_RangeError:
  "createSnowflakeGenerator localHost (frozenClock 1762000000000)
       \<lparr>opt_machineId = Some (Integer 1024), opt_epoch = Some NonInteger, opt_warnOnDrift = None\<rparr> newWorld =
     (Inl RangeError, newWorld)
   \<and> RangeError \<noteq> InvalidMachineId"
  by (simp add: createSnowflakeGenerator_def BigInt_def validateMachineId_def MAX_values)

text \<open>
  Claim C9 (\<open>warnOnDrift\<close> is observability only).  Two calls of
  \<open>generateSnowflakeWithState\<close> that differ in \<open>warnOnDrift\<close> alone have the same outcome:
  both return the same identifier, timestamp and sequence number, or both throw the same
  error, or both wait for ever; they leave the same generator state and have read the
  clock equally often.  Only the console differs: with the flag off a call writes
  nothing, with the flag on it writes nothing or the one warning that the clock moved
  backwards.
\<close>

theorem warnOnDrift_only_warns:
  "map_option (\<lambda>(x, st', w'). (x, st', reads w'))
       (generateSnowflakeWithState clock st ep mid True w) =
   map_option (\<lambda>(x, st', w'). (x, st', reads w'))
       (generateSnowflakeWithState clock st ep mid False w)
   \<and> (generateSnowflakeWithState clock st ep mid False w = Some (x, st', w') \<longrightarrow>
        console w' = console w)
   \<and> (generateSnowflakeWithState clock st ep mid True w = Some (x, st', w') \<longrightarrow>
        console w' = console w
        \<or> console w' = console w @ [ClockMovedBackwards (lastTimestamp st - clock (reads w))])"
proof (intro conjI impI)
  show "map_option (\<lambda>(x, st', w'). (x, st', reads w'))
       (generateSnowflakeWithState clock st ep mid True w) =
   map_option (\<lambda>(x, st', w'). (x, st', reads w'))
       (generateSnowflakeWithState clock st ep mid False w)"
    by (rule warnOnDrift_same_outcome)
next
  assume "generateSnowflakeWithState clock st ep mid False w = Some (x, st', w')"
  from generate_console [OF this] show "console w' = console w" by simp
next
  assume "generateSnowflakeWithState clock st ep mid True w = Some (x, st', w')"
  from generate_console [OF this]
  show "console w' = console w
        \<or> console w' = console w @ [ClockMovedBackwards (lastTimestamp st - clock (reads w))]"
    by (simp split: if_splits)
qed

theorem warnOnDrift_only_warns_witness:
  "map_option (\<lambda>(x, st', w'). (x, st', reads w'))
       (generateSnowflakeWithState (scriptedClock [7000, 8000] 10001)
          \<lparr>sequence = 3, lastTimestamp = 10000\<rparr> 0 5 True newWorld) =
   map_option (\<lambda>(x, st', w'). (x, st', reads w'))
       (generateSnowflakeWithState (scriptedClock [7000, 8000] 10001)
          \<lparr>sequence = 3, lastTimestamp = 10000\<rparr> 0 5 False newWorld)
   \<and> console \<lparr>reads = 3, console = []\<rparr> = console newWorld
   \<and> (console \<lparr>reads = 3, console = [ClockMovedBackwards 3000]\<rparr> = console newWorld
        \<or> console \<lparr>reads = 3, console = [ClockMovedBackwards 3000]\<rparr> =
            console newWorld @ [ClockMovedBackwards
              (lastTimestamp \<lparr>sequence = 3, lastTimestamp = 10000\<rparr>
                 - scriptedClock [7000, 8000] 10001 (reads newWorld))])"
proof -
  note t = warnOnDrift_only_warns [where clock = "scriptedClock [7000, 8000] 10001"
      and st = "\<lparr>sequence = 3, lastTimestamp = 10000\<rparr>" and ep = 0 and mid = 5 and w = newWorld]
  note quiet = t [where x = "Inr \<lparr>res_id = 41947254784, res_timestamp = 10001, res_sequence = 0\<rparr>"
      and st' = "\<lparr>sequence = 0, lastTimestamp = 10001\<rparr>"
      and w' = "\<lparr>reads = 3, console = []\<rparr>"]
  note loud = t [where x = "Inr \<lparr>res_id = 41947254784, res_timestamp = 10001, res_sequence = 0\<rparr>"
      and st' = "\<lparr>sequence = 0, lastTimestamp = 10001\<rparr>"
      and w' = "\<lparr>reads = 3, console = [ClockMovedBackwards 3000]\<rparr>"]
  from quiet loud run_small_drift run_small_drift_silent show ?thesis by blast
qed

text \<open>
  Claim C10 (default machine ID).  The machine ID derived for a generator constructed
  without one lies in \<open>[0, 1023]\<close>: always when it comes from the digest of the host name,
  which is masked, and when that fails and it comes from \<open>Math.random()\<close>, because that
  value lies in \<open>[0, 1)\<close>.  Construction
  without a machine ID never throws \<open>InvalidMachineId\<close>, whatever the derived value (it
  is not validated), and a generator it returns has the derived machine ID.
\<close>

theorem default_machineId_in_range:
  "(hostname_digest host \<noteq> None \<or> 0 \<le> random host \<and> random host < 1 \<longrightarrow>
      0 \<le> fst (generateMachineIdFromHostname host w)
      \<and> fst (generateMachineIdFromHostname host w) \<le> 1023)
   \<and> (opt_machineId options = None \<longrightarrow>
      fst (createSnowflakeGenerator host clock options w) \<noteq> Inl InvalidMachineId
      \<and> (\<forall>g w'. createSnowflakeGenerator host clock options w = (Inr g, w') \<longrightarrow>
            machineId g = fst (generateMachineIdFromHostname host w)))"
proof (intro conjI impI)
  assume "hostname_digest host \<noteq> None \<or> 0 \<le> random host \<and> random host < 1"
  then show "0 \<le> fst (generateMachineIdFromHostname host w)"
    "fst (generateMachineIdFromHostname host w) \<le> 1023"
    by (rule generateMachineIdFromHostname_range)+
next
  assume a: "opt_machineId options = None"
  then show "fst (createSnowflakeGenerator host clock options w) \<noteq> Inl InvalidMachineId"
    by (auto simp: create_defs split: create_splits)
  from a show "\<forall>g w'. createSnowflakeGenerator host clock options w = (Inr g, w') \<longrightarrow>
            machineId g = fst (generateMachineIdFromHostname host w)"
    by (auto simp: create_defs split: create_splits)
qed

theorem default_machineId_in_range_witness:
  "0 \<le> fst (generateMachineIdFromHostname namelessHost newWorld)
   \<and> fst (generateMachineIdFromHostname namelessHost newWorld) \<le> 1023
   \<and> fst (createSnowflakeGenerator namelessHost (frozenClock 1762000000000)
       \<lparr>opt_machineId = None, opt_epoch = None, opt_warnOnDrift = None\<rparr> newWorld)
       \<noteq> Inl InvalidMachineId
   \<and> 0 \<le> fst (generateMachineIdFromHostname localHost newWorld)
   \<and> fst (generateMachineIdFromHostname localHost newWorld) \<le> 1023
   \<and> fst (createSnowflakeGenerator localHost (frozenClock 1762000000000)
       \<lparr>opt_machineId = None, opt_epoch = None, opt_warnOnDrift = None\<rparr> newWorld)
       \<noteq> Inl InvalidMachineId"
proof -
  have r: "0 \<le> random namelessHost \<and> random namelessHost < 1"
    by (simp add: namelessHost_def)
  have d: "hostname_digest localHost \<noteq> None"
    by (simp add: localHost_def)
  have n: "opt_machineId \<lparr>opt_machineId = None, opt_epoch = None, opt_warnOnDrift = None\<rparr> = None"
    by simp
  note a = default_machineId_in_range [where host = namelessHost and w = newWorld
      and options = "\<lparr>opt_machineId = None, opt_epoch = None, opt_warnOnDrift = None\<rparr>"
      and clock = "frozenClock 1762000000000"]
  note b = default_machineId_in_range [where host = localHost and w = newWorld
      and options = "\<lparr>opt_machineId = None, opt_epoch = None, opt_warnOnDrift = None\<rparr>"
      and clock = "frozenClock 1762000000000"]
  from a b r d n show ?thesis by blast
qed

end
